theory Spec2Isabelle
  imports Complex_Main "HOL-Library.Sublist"
begin

section \<open>Signal-Studio: the signal store and the sampling pipeline of task2.py\<close>

text \<open>
  The numeric values of the program are held in numpy arrays and pandas columns, whose
  elements are IEEE doubles or 64-bit integers. An array is modelled as the list of its
  values, as reals, together with its element type. The rounding of double arithmetic is
  modelled where a count depends on it (\<open>np.arange\<close>, below); elsewhere the arithmetic
  is exact, and \<open>nan\<close>, \<open>inf\<close>, overflow and subnormal numbers are outside the model.
  Arrays are Python objects that are passed by reference and that \<open>+=\<close> updates in
  place, so they live in an explicit store: an address is an index into the list of all
  arrays allocated so far.
\<close>

subsection \<open>Exceptions, arrays and the array store\<close>

datatype exn = ValueError | IndexError | ZeroDivisionError | AttributeError | ReadError

type_synonym addr = nat

type_synonym ndarray = "real list"

datatype dtype = Int64 | Float64

text \<open>The class \<open>Signal\<close> (task2.py, lines 12-18): its two arrays are references.\<close>

record signal =
  amplitude :: addr
  time :: addr
  frequency :: "real option"
  signal_id :: int
  signal_type :: string

text \<open>The attributes of \<open>SignalManager\<close> (lines 21-26). The callback it is built with
  is \<open>GUI.plot_signals\<close> (line 129), modelled below.\<close>

record signal_manager =
  signals :: "signal list"
  next_signal_id :: int
  snr :: real

text \<open>A message box shown to the user: its kind and its title.\<close>

datatype dialog = Warning string | Critical string | Information string

text \<open>
  The state of a running session: the array store with the element type of each
  array, the variates that numpy's global generator will return next, the message boxes shown so far, the signal manager, and the
  attributes of \<open>GUI\<close> that the pipeline reads and writes. \<open>reconstruction_viewer\<close> is
  the curve (time array, amplitude array) that the reconstruction plot displays.
\<close>

record world =
  heap :: "ndarray list"
  dtypes :: "addr \<Rightarrow> dtype"
  rng :: "nat \<Rightarrow> real"
  dialogs :: "dialog list"
  manager :: signal_manager
  gui_time :: addr
  gui_amplitude :: addr
  sampling_frequency :: real
  samples :: "addr option"
  sampled_amplitude :: "addr option"
  reconstruction_viewer :: "(addr \<times> addr) option"

text \<open>\<open>GUI.__init__\<close> (lines 129-139): \<open>self.time = []\<close>, \<open>self.amplitude = []\<close> are two
  fresh empty sequences, \<open>self.sampling_frequency = 1\<close>; the manager starts with no
  signal, identifier 1 and a ratio of 40.\<close>

definition init_manager :: signal_manager where
  "init_manager = \<lparr>signals = [], next_signal_id = 1, snr = 40\<rparr>"

definition init_world :: "(nat \<Rightarrow> real) \<Rightarrow> world" where
  "init_world g = \<lparr>heap = [[], []], dtypes = (\<lambda>a. Float64), rng = g, dialogs = [], manager = init_manager,
     gui_time = 0, gui_amplitude = 1, sampling_frequency = 1,
     samples = None, sampled_amplitude = None, reconstruction_viewer = None\<rparr>"

definition alloc :: "dtype \<Rightarrow> ndarray \<Rightarrow> world \<Rightarrow> addr \<times> world" where
  "alloc d a w =
     (length (heap w), w\<lparr>heap := heap w @ [a], dtypes := (dtypes w)(length (heap w) := d)\<rparr>)"

definition message :: "dialog \<Rightarrow> world \<Rightarrow> world" where
  "message d w = w\<lparr>dialogs := dialogs w @ [d]\<rparr>"

subsection \<open>numpy functions used by the store\<close>

text \<open>\<open>np.zeros_like(a)\<close>: a new array of zeros with the length and the element type
  of \<open>a\<close>.\<close>

definition zeros_like :: "addr \<Rightarrow> world \<Rightarrow> addr \<times> world" where
  "zeros_like a w = alloc (dtypes w a) (replicate (length (heap w ! a)) 0) w"

text \<open>The conversion of a double to a 64-bit integer: towards zero.\<close>

definition trunc :: "real \<Rightarrow> real" where
  "trunc x = (if 0 \<le> x then of_int \<lfloor>x\<rfloor> else of_int \<lceil>x\<rceil>)"

text \<open>
  \<open>a += b\<close> on arrays: element by element in place when the lengths agree, the single
  element of \<open>b\<close> broadcast when \<open>b\<close> has length one, a ValueError otherwise. The
  result is stored in \<open>a\<close> with the element type of \<open>a\<close>: when \<open>a\<close> holds integers
  and \<open>b\<close> is a pandas column, each sum is converted to an integer on assignment. (An
  integer accumulator only arises from an uploaded time column, and then every
  amplitude it meets is a pandas column.)
\<close>

definition iadd :: "addr \<Rightarrow> addr \<Rightarrow> world \<Rightarrow> (exn + unit) \<times> world" where
  "iadd dst src w =
    (let a = heap w ! dst; b = heap w ! src;
         cast = (\<lambda>v. if dtypes w dst = Int64 then map trunc v else v) in
     if length b = length a then (Inr (), w\<lparr>heap := (heap w)[dst := cast (map2 (+) a b)]\<rparr>)
     else if length b = 1
       then (Inr (), w\<lparr>heap := (heap w)[dst := cast (map (\<lambda>x. x + hd b) a)]\<rparr>)
     else (Inl ValueError, w))"

text \<open>\<open>np.mean\<close>; on an empty array numpy returns \<open>nan\<close> (with a warning), which the
  model does not have: there the value is 0 and no caller reads it elementwise.\<close>

definition mean :: "ndarray \<Rightarrow> real" where
  "mean a = sum_list a / real (length a)"

text \<open>\<open>np.random.normal(0, 1, n)\<close>: the next \<open>n\<close> variates of the generator, which
  advances.\<close>

definition random_normal :: "nat \<Rightarrow> world \<Rightarrow> ndarray \<times> world" where
  "random_normal n w = (map (rng w) [0..<n], w\<lparr>rng := (\<lambda>i. rng w (i + n))\<rparr>)"

text \<open>\<open>np.linspace(start, stop, num)\<close>: \<open>num\<close> points, both ends included.\<close>

definition linspace :: "real \<Rightarrow> real \<Rightarrow> nat \<Rightarrow> ndarray" where
  "linspace start stop num =
    (if num = 1 then [start]
     else map (\<lambda>i. start + real i * ((stop - start) / real (num - 1))) [0..<num])"

subsection \<open>SignalManager.get_combined_signal_with_noise (lines 95-117)\<close>

text \<open>The loop \<open>for signal in self.signals: combined_amplitude += signal.amplitude\<close>.\<close>

fun add_signals :: "addr \<Rightarrow> signal list \<Rightarrow> world \<Rightarrow> (exn + unit) \<times> world" where
  "add_signals c [] w = (Inr (), w)"
| "add_signals c (s # ss) w =
    (case iadd c (amplitude s) w of
       (Inl e, w') \<Rightarrow> (Inl e, w')
     | (Inr _, w') \<Rightarrow> add_signals c ss w')"

definition get_combined_signal_with_noise ::
  "world \<Rightarrow> (exn + (addr option \<times> addr option)) \<times> world" where
  "get_combined_signal_with_noise w =
    (if signals (manager w) = [] then (Inr (None, None), w)
     else
       let tm = time (hd (signals (manager w)));
           (combined_amplitude, w1) = zeros_like tm w
       in case add_signals combined_amplitude (signals (manager w1)) w1 of
            (Inl e, w2) \<Rightarrow> (Inl e, w2)
          | (Inr _, w2) \<Rightarrow>
              let ca = heap w2 ! combined_amplitude;
                  signal_power = mean (map (\<lambda>x. x ^ 2) ca);
                  noise_power = signal_power / (10 powr (snr (manager w2) / 10));
                  (z, w3) = random_normal (length ca) w2;
                  (noise, w4) = alloc Float64 (map (\<lambda>x. sqrt noise_power * x) z) w3;
                  (noisy_signal, w5) = alloc Float64 (map2 (+) ca (heap w4 ! noise)) w4
              in (Inr (Some tm, Some noisy_signal), w5))"

definition set_snr :: "real \<Rightarrow> world \<Rightarrow> world" where
  "set_snr snr_value w = w\<lparr>manager := (manager w)\<lparr>snr := snr_value\<rparr>\<rparr>"

subsection \<open>Library functions used by the pipeline\<close>

text \<open>
  Double arithmetic: the result of an operation is the exact result rounded to the
  nearest number with 53 significant bits, ties to the even one. \<open>rint\<close> rounds to the
  nearest integer, ties to even; \<open>fl64\<close> rounds a real to the nearest double (with an
  unbounded exponent).
\<close>

definition rint :: "real \<Rightarrow> int" where
  "rint y =
     (let n = \<lfloor>y\<rfloor>; d = y - of_int n in
      if d < 1 / 2 then n else if 1 / 2 < d then n + 1 else if even n then n else n + 1)"

definition fl64 :: "real \<Rightarrow> real" where
  "fl64 x =
     (if x = 0 then 0
      else let u = 2 powr (of_int \<lfloor>log 2 \<bar>x\<bar>\<rfloor> - 52) in u * of_int (rint (x / u)))"

text \<open>
  \<open>np.arange(start, stop, step)\<close> on doubles. The length is the ceiling of the double
  quotient \<open>(stop - start) / step\<close>, no value when it is not positive. The first value
  is \<open>start\<close>, the second the double \<open>start + step\<close>, and the others are filled in as
  \<open>start + i * delta\<close> in double arithmetic, \<open>delta\<close> the double difference of the
  first two.
\<close>

definition arange :: "real \<Rightarrow> real \<Rightarrow> real \<Rightarrow> ndarray" where
  "arange start stop step =
     (let next = fl64 (start + step);
          delta = fl64 (next - start);
          n = nat \<lceil>fl64 (fl64 (stop - start) / step)\<rceil>
      in map (\<lambda>i. if i = 0 then start else if i = 1 then next
                   else fl64 (start + fl64 (real i * delta))) [0..<n])"

text \<open>\<open>np.interp\<close> at one point, over the points \<open>(xp[j], fp[j])\<close> with \<open>xp\<close> increasing:
  the first value to the left of \<open>xp[0]\<close>, the last value from \<open>xp[-1]\<close> on, and the
  chord through the two neighbours in between.\<close>

fun interp_at :: "real \<Rightarrow> (real \<times> real) list \<Rightarrow> real" where
  "interp_at x [] = 0"
| "interp_at x [(x0, y0)] = y0"
| "interp_at x ((x0, y0) # (x1, y1) # ps) =
     (if x < x1 then (if x \<le> x0 then y0 else (y1 - y0) / (x1 - x0) * (x - x0) + y0)
      else interp_at x ((x1, y1) # ps))"

definition interp :: "ndarray \<Rightarrow> ndarray \<Rightarrow> ndarray \<Rightarrow> exn + ndarray" where
  "interp x xp fp =
     (if xp = [] then Inl ValueError
      else if length fp \<noteq> length xp then Inl ValueError
      else Inr (map (\<lambda>v. interp_at v (zip xp fp)) x))"

text \<open>The discrete Fourier transform of a real sequence (its first \<open>n div 2 + 1\<close>
  coefficients) and the inverse that returns \<open>n\<close> real values.\<close>

definition rfft :: "ndarray \<Rightarrow> complex list" where
  "rfft x =
     map (\<lambda>k. \<Sum>n = 0..<length x.
            complex_of_real (x ! n) * cis (- (2 * pi * real k * real n / real (length x))))
       [0..<length x div 2 + 1]"

definition irfft :: "complex list \<Rightarrow> nat \<Rightarrow> ndarray" where
  "irfft Y n =
     map (\<lambda>j. (Re (Y ! 0)
              + 2 * (\<Sum>k = 1..<(n + 1) div 2. Re (Y ! k * cis (2 * pi * real k * real j / real n)))
              + (if even n then Re (Y ! (n div 2) * cis (pi * real j)) else 0)) / real n)
       [0..<n]"

text \<open>
  \<open>scipy.signal.resample(x, num, t)\<close> for a real one-dimensional \<open>x\<close> and no window:
  transform, copy the low \<open>min num Nx\<close> frequencies into a spectrum for \<open>num\<close> points
  (doubling or halving the Nyquist bin), transform back and rescale; the new instants
  start at \<open>t[0]\<close> with spacing \<open>(t[1] - t[0]) * Nx / num\<close>. The transform rejects an
  empty input, and \<open>t[1]\<close> is read after the values are computed.
\<close>

definition resample :: "ndarray \<Rightarrow> nat \<Rightarrow> ndarray \<Rightarrow> exn + (ndarray \<times> ndarray)" where
  "resample x num t =
     (let Nx = length x in
      if Nx = 0 \<or> num = 0 then Inl ValueError
      else
        let X = rfft x;
            N = min num Nx;
            nyq = N div 2 + 1;
            Y = take nyq X @ replicate (num div 2 + 1 - nyq) 0;
            Y' = (if even N \<and> num < Nx then Y[N div 2 := 2 * Y ! (N div 2)]
                  else if even N \<and> Nx < num then Y[N div 2 := Y ! (N div 2) / 2]
                  else Y);
            y = map (\<lambda>v. v * (real num / real Nx)) (irfft Y' num)
        in if length t < 2 then Inl IndexError
           else Inr (y, map (\<lambda>i. real i * (t ! 1 - t ! 0) * real Nx / real num + t ! 0) [0..<num]))"

subsection \<open>The pipeline: GUI.take_samples, reconstruct, start, plot_signals (lines 381-475)\<close>

text \<open>
  \<open>take_samples\<close> (lines 467-470). The arguments of \<open>np.arange\<close> are evaluated in order:
  \<open>time[0]\<close> raises on an empty sequence, then \<open>1 / sampling_frequency\<close> raises on zero
  and is a double otherwise.
  \<open>self.samples\<close> is assigned before \<open>np.interp\<close> runs. Drawing on the plot widgets is
  not modelled.
\<close>

definition take_samples :: "addr \<Rightarrow> addr \<Rightarrow> real \<Rightarrow> world \<Rightarrow> (exn + unit) \<times> world" where
  "take_samples tm amp freq w =
     (let ts = heap w ! tm in
      if ts = [] then (Inl IndexError, w)
      else if freq = 0 then (Inl ZeroDivisionError, w)
      else
        let (s, w1) = alloc Float64 (arange (hd ts) (last ts) (fl64 (1 / freq))) w;
            w2 = w1\<lparr>samples := Some s\<rparr>
        in case interp (heap w2 ! s) (heap w2 ! tm) (heap w2 ! amp) of
             Inl e \<Rightarrow> (Inl e, w2)
           | Inr v \<Rightarrow>
               let (sa, w3) = alloc Float64 v w2
               in (Inr (), w3\<lparr>sampled_amplitude := Some sa\<rparr>))"

text \<open>\<open>reconstruct\<close> (lines 472-475): the viewer is cleared, then shows the resampled
  curve.\<close>

definition reconstruct :: "addr \<Rightarrow> addr \<Rightarrow> world \<Rightarrow> (exn + unit) \<times> world" where
  "reconstruct smp smp_amp w =
     (let w1 = w\<lparr>reconstruction_viewer := None\<rparr> in
      case resample (heap w1 ! smp_amp) 5000 (heap w1 ! smp) of
        Inl e \<Rightarrow> (Inl e, w1)
      | Inr (reconstructed_amplitude, reconstructed_time) \<Rightarrow>
          let (ra, w2) = alloc Float64 reconstructed_amplitude w1;
              (rt, w3) = alloc Float64 reconstructed_time w2
          in (Inr (), w3\<lparr>reconstruction_viewer := Some (rt, ra)\<rparr>))"

text \<open>\<open>start\<close> (lines 412-418).\<close>

definition start :: "addr \<Rightarrow> addr \<Rightarrow> world \<Rightarrow> (exn + unit) \<times> world" where
  "start amp tm w =
     (let w1 = w\<lparr>gui_time := tm, gui_amplitude := amp\<rparr> in
      case take_samples (gui_time w1) (gui_amplitude w1) (sampling_frequency w1) w1 of
        (Inl e, w2) \<Rightarrow> (Inl e, w2)
      | (Inr _, w2) \<Rightarrow>
          (case samples w2 of
             None \<Rightarrow> (Inl AttributeError, w2)
           | Some s \<Rightarrow>
               (case sampled_amplitude w2 of
                  None \<Rightarrow> (Inl AttributeError, w2)
                | Some sa \<Rightarrow> reconstruct s sa w2)))"

text \<open>\<open>plot_signals\<close> (lines 381-394), the callback of the signal manager.\<close>

definition plot_signals :: "world \<Rightarrow> (exn + unit) \<times> world" where
  "plot_signals w =
     (if signals (manager w) = [] then (Inr (), message (Warning ''No Signal'') w)
      else
        case get_combined_signal_with_noise w of
          (Inl e, w1) \<Rightarrow> (Inl e, w1)
        | (Inr (None, _), w1) \<Rightarrow> (Inr (), w1)
        | (Inr (Some tm, None), w1) \<Rightarrow> (Inr (), w1)
        | (Inr (Some tm, Some noisy_signal), w1) \<Rightarrow> start noisy_signal tm w1)"

text \<open>\<open>update_stem_plot\<close> (lines 446-458), run when the frequency slider moves to
  \<open>v\<close>: every exception ends in the same message box.\<close>

definition update_stem_plot :: "real \<Rightarrow> world \<Rightarrow> world" where
  "update_stem_plot v w =
     (let w1 = w\<lparr>sampling_frequency := v\<rparr> in
      case take_samples (gui_time w1) (gui_amplitude w1) (sampling_frequency w1) w1 of
        (Inl e, w2) \<Rightarrow> message (Information ''Upload Error !'') w2
      | (Inr _, w2) \<Rightarrow>
          (case samples w2 of
             None \<Rightarrow> message (Information ''Upload Error !'') w2
           | Some s \<Rightarrow>
               (case sampled_amplitude w2 of
                  None \<Rightarrow> message (Information ''Upload Error !'') w2
                | Some sa \<Rightarrow>
                    (case reconstruct s sa w2 of
                       (Inl e, w3) \<Rightarrow> message (Information ''Upload Error !'') w3
                     | (Inr _, w3) \<Rightarrow> w3))))"

subsection \<open>SignalManager.upload_signal (lines 28-62)\<close>

text \<open>
  What \<open>pd.read_csv\<close> returns for a path is a parameter: an exception, or a table given
  by its columns, all of the same length; a column has an element type (64-bit integers
  when every field of the file's column is an integer literal) and its values. The paths
  are the files chosen in the dialog. \<open>data.ndim\<close> is 2 for every table, so the reshape
  of line 39 never runs.
\<close>

record column =
  col_dtype :: dtype
  col_values :: "real list"

type_synonym dataframe = "column list"

definition upload_file :: "(string \<Rightarrow> exn + dataframe) \<Rightarrow> string \<Rightarrow> world \<Rightarrow> world" where
  "upload_file read_csv file_path w =
     (case read_csv file_path of
        Inl e \<Rightarrow> message (Critical ''Error'') w
      | Inr data \<Rightarrow>
          if length data < 2 then message (Warning ''Invalid Data'') w
          else
            let (tm, w1) = alloc (col_dtype (data ! 0)) (col_values (data ! 0)) w;
                (amp, w2) = alloc (col_dtype (data ! 1)) (col_values (data ! 1)) w1;
                sid = next_signal_id (manager w2);
                sg = \<lparr>amplitude = amp, time = tm, frequency = None, signal_id = sid,
                      signal_type = ''UPLOADED''\<rparr>;
                w3 = w2\<lparr>manager := (manager w2)\<lparr>signals := signals (manager w2) @ [sg]\<rparr>\<rparr>;
                w4 = w3\<lparr>manager := (manager w3)\<lparr>next_signal_id := next_signal_id (manager w3) + 1\<rparr>\<rparr>
            in case plot_signals w4 of
                 (Inl e, w5) \<Rightarrow> message (Critical ''Error'') w5
               | (Inr _, w5) \<Rightarrow> w5)"

fun upload_files :: "(string \<Rightarrow> exn + dataframe) \<Rightarrow> string list \<Rightarrow> world \<Rightarrow> world" where
  "upload_files read_csv [] w = w"
| "upload_files read_csv (file_path # rest) w =
     upload_files read_csv rest (upload_file read_csv file_path w)"

definition upload_signal :: "(string \<Rightarrow> exn + dataframe) \<Rightarrow> string list \<Rightarrow> world \<Rightarrow> world" where
  "upload_signal read_csv file_paths w =
     (if file_paths \<noteq> [] then upload_files read_csv file_paths w else w)"

subsection \<open>SignalManager.add_signal_component (lines 64-89)\<close>

text \<open>
  Python's \<open>float\<close> on the text of an input field is a parameter: \<open>None\<close> where it
  raises ValueError. A ValueError raised later inside the \<open>try\<close> block (by the
  callback) ends in the same message box; any other exception leaves the method.
\<close>

definition add_signal_component ::
  "(string \<Rightarrow> real option) \<Rightarrow> string \<Rightarrow> string \<Rightarrow> world \<Rightarrow> (exn + unit) \<times> world" where
  "add_signal_component py_float frequency_text amplitude_text w =
     (case py_float frequency_text of
        None \<Rightarrow> (Inr (), message (Warning ''Invalid Input'') w)
      | Some freq \<Rightarrow>
          (case py_float amplitude_text of
             None \<Rightarrow> (Inr (), message (Warning ''Invalid Input'') w)
           | Some amplitude_value \<Rightarrow>
               let sid = next_signal_id (manager w);
                   (tm, w1) = (if signals (manager w) \<noteq> [] then (time (hd (signals (manager w))), w)
                               else alloc Float64 (linspace 0 (1000 / 1000) 1000) w);
                   (amp, w2) = alloc Float64 (map (\<lambda>t. amplitude_value * sin (2 * pi * freq * t)) (heap w1 ! tm)) w1;
                   sg = \<lparr>amplitude = amp, time = tm, frequency = Some freq, signal_id = sid,
                         signal_type = ''sinusoidal''\<rparr>;
                   w3 = w2\<lparr>manager := (manager w2)\<lparr>signals := signals (manager w2) @ [sg]\<rparr>\<rparr>;
                   w4 = w3\<lparr>manager := (manager w3)\<lparr>next_signal_id := next_signal_id (manager w3) + 1\<rparr>\<rparr>
               in case plot_signals w4 of
                    (Inl ValueError, w5) \<Rightarrow> (Inr (), message (Warning ''Invalid Input'') w5)
                  | (Inl e, w5) \<Rightarrow> (Inl e, w5)
                  | (Inr u, w5) \<Rightarrow> (Inr u, w5)))"

text \<open>A reader of decimal digit strings, one instance of the parameter \<open>py_float\<close>:
  it accepts a non-empty string of digits and rejects everything else.\<close>

definition digit_value :: "char \<Rightarrow> nat" where
  "digit_value c = of_char c - 48"

definition float_of_digits :: "string \<Rightarrow> real option" where
  "float_of_digits s =
     (if s \<noteq> [] \<and> list_all (\<lambda>c. 48 \<le> (of_char c :: nat) \<and> (of_char c :: nat) \<le> 57) s
      then Some (real (foldl (\<lambda>a c. 10 * a + digit_value c) 0 s))
      else None)"

subsection \<open>Predicates used in the statements\<close>

text \<open>
  \<open>heap_kept w w'\<close>: every array that exists in \<open>w\<close> exists unchanged in \<open>w'\<close>.
  \<open>store_kept w w'\<close>: moreover the signal manager is the same. \<open>valid_refs w\<close>: the arrays
  of the stored signals exist (a Python reference never dangles). \<open>signal_arrays w s\<close>:
  the time and amplitude sequences of a signal.
\<close>

definition heap_kept :: "world \<Rightarrow> world \<Rightarrow> bool" where
  "heap_kept w w' \<longleftrightarrow>
     length (heap w) \<le> length (heap w') \<and> (\<forall>a<length (heap w). heap w' ! a = heap w ! a)"

definition store_kept :: "world \<Rightarrow> world \<Rightarrow> bool" where
  "store_kept w w' \<longleftrightarrow> manager w' = manager w \<and> heap_kept w w'"

definition valid_refs :: "world \<Rightarrow> bool" where
  "valid_refs w \<longleftrightarrow>
     (\<forall>s\<in>set (signals (manager w)). time s < length (heap w) \<and> amplitude s < length (heap w))"

definition signal_arrays :: "world \<Rightarrow> signal \<Rightarrow> ndarray \<times> ndarray" where
  "signal_arrays w s = (heap w ! time s, heap w ! amplitude s)"

text \<open>
  The invariant of the store: the stored arrays exist, and the identifiers of the stored
  signals are exactly \<open>1, 2, ..., next_signal_id - 1\<close> in insertion order.
  \<open>append_only w w'\<close>: the signals of \<open>w\<close> are still there in \<open>w'\<close>, in the same
  order and with the same time and amplitude sequences.
\<close>

definition store_inv :: "world \<Rightarrow> bool" where
  "store_inv w \<longleftrightarrow>
     valid_refs w \<and> 1 \<le> next_signal_id (manager w) \<and>
     map signal_id (signals (manager w)) = [1..next_signal_id (manager w) - 1]"

definition append_only :: "world \<Rightarrow> world \<Rightarrow> bool" where
  "append_only w w' \<longleftrightarrow>
     prefix (signals (manager w)) (signals (manager w')) \<and>
     map (signal_arrays w') (signals (manager w)) = map (signal_arrays w) (signals (manager w))"

text \<open>The pointwise sum of the amplitudes of all signals, over the first signal's time
  base, as the specification words it.\<close>

definition summed_amplitude :: "world \<Rightarrow> ndarray" where
  "summed_amplitude w =
     map (\<lambda>i. \<Sum>s\<leftarrow>signals (manager w). heap w ! amplitude s ! i)
       [0..<length (heap w ! time (hd (signals (manager w))))]"

text \<open>Concrete states for the examples: a store holding one uploaded signal of three
  points, a session whose current signal spans \<open>[0, 3/4]\<close>, and the store after the
  upload of a file whose time column holds the integers 0, 1, 2 and whose amplitude column
  holds 1.5, 2.5, 3.5.\<close>

definition one_signal_world :: world where
  "one_signal_world = \<lparr>heap = [[], [], [0, 1/2, 1], [1, 2, 3]], dtypes = (\<lambda>a. Float64),
     rng = (\<lambda>i. 0), dialogs = [],
     manager = \<lparr>signals = [\<lparr>amplitude = 3, time = 2, frequency = None, signal_id = 1,
                              signal_type = ''UPLOADED''\<rparr>],
                 next_signal_id = 2, snr = 40\<rparr>,
     gui_time = 0, gui_amplitude = 1, sampling_frequency = 1,
     samples = None, sampled_amplitude = None, reconstruction_viewer = None\<rparr>"

definition sampling_world :: world where
  "sampling_world = \<lparr>heap = [[0, 3/4], [0, 1]], dtypes = (\<lambda>a. Float64),
     rng = (\<lambda>i. 0), dialogs = [],
     manager = init_manager, gui_time = 0, gui_amplitude = 1, sampling_frequency = 2,
     samples = None, sampled_amplitude = None, reconstruction_viewer = None\<rparr>"

definition integer_time_world :: world where
  "integer_time_world = \<lparr>heap = [[], [], [0, 1, 2], [3/2, 5/2, 7/2]],
     dtypes = (\<lambda>a. if a = 2 then Int64 else Float64), rng = (\<lambda>i. 0), dialogs = [],
     manager = \<lparr>signals = [\<lparr>amplitude = 3, time = 2, frequency = None, signal_id = 1,
                              signal_type = ''UPLOADED''\<rparr>],
                 next_signal_id = 2, snr = 40\<rparr>,
     gui_time = 0, gui_amplitude = 1, sampling_frequency = 1,
     samples = None, sampled_amplitude = None, reconstruction_viewer = None\<rparr>"

text \<open>\<open>unrounded t0 tN f\<close>: none of the operations of \<open>np.arange(t0, tN, 1 / f)\<close>
  rounds.\<close>

definition unrounded :: "real \<Rightarrow> real \<Rightarrow> real \<Rightarrow> bool" where
  "unrounded t0 tN f \<longleftrightarrow>
     fl64 (1 / f) = 1 / f \<and> fl64 (tN - t0) = tN - t0 \<and>
     fl64 ((tN - t0) / (1 / f)) = (tN - t0) / (1 / f) \<and>
     fl64 (t0 + 1 / f) = t0 + 1 / f \<and>
     (\<forall>i. 2 \<le> i \<and> real i < (tN - t0) * f \<longrightarrow>
          fl64 (real i * (1 / f)) = real i * (1 / f) \<and>
          fl64 (t0 + real i * (1 / f)) = t0 + real i * (1 / f))"

section \<open>Properties\<close>

subsection \<open>What the operations leave alone\<close>

lemma store_kept_refl: "store_kept w w"
  by (simp add: store_kept_def heap_kept_def)

lemma store_kept_trans: "store_kept w w1 \<Longrightarrow> store_kept w1 w2 \<Longrightarrow> store_kept w w2"
  by (auto simp: store_kept_def heap_kept_def)

lemma store_kept_alloc: "store_kept w (snd (alloc d a w))"
  by (simp add: store_kept_def heap_kept_def alloc_def nth_append)

lemma store_kept_message: "store_kept w (message d w)"
  by (simp add: store_kept_def heap_kept_def message_def)

lemma iadd_frame:
  assumes "iadd c src w = (r, w')"
  shows "manager w' = manager w \<and> rng w' = rng w \<and> length (heap w') = length (heap w) \<and>
         (\<forall>a. a \<noteq> c \<longrightarrow> heap w' ! a = heap w ! a)"
  using assms by (auto simp: iadd_def Let_def split: if_splits)

lemma add_signals_frame:
  "add_signals c ss w = (r, w') \<Longrightarrow>
     manager w' = manager w \<and> rng w' = rng w \<and> length (heap w') = length (heap w) \<and>
     (\<forall>a. a \<noteq> c \<longrightarrow> heap w' ! a = heap w ! a)"
proof (induction ss arbitrary: w)
  case Nil
  then show ?case by simp
next
  case (Cons s ss)
  obtain r1 w1 where i: "iadd c (amplitude s) w = (r1, w1)" by (cases "iadd c (amplitude s) w")
  note f = iadd_frame [OF i]
  show ?case
  proof (cases r1)
    case (Inl e)
    with Cons.prems i f show ?thesis by simp
  next
    case (Inr u)
    with Cons.prems i have "add_signals c ss w1 = (r, w')" by simp
    from Cons.IH [OF this] f show ?thesis by simp
  qed
qed

lemma get_combined_kept: "store_kept w (snd (get_combined_signal_with_noise w))"
proof (cases "signals (manager w) = []")
  case True
  then show ?thesis by (simp add: get_combined_signal_with_noise_def store_kept_refl)
next
  case False
  define c where "c = length (heap w)"
  define w1 where "w1 = snd (zeros_like (time (hd (signals (manager w)))) w)"
  obtain r w2 where a: "add_signals c (signals (manager w1)) w1 = (r, w2)"
    by (cases "add_signals c (signals (manager w1)) w1")
  note f = add_signals_frame [OF a]
  have k: "store_kept w w2"
    using f by (auto simp: store_kept_def heap_kept_def w1_def c_def zeros_like_def alloc_def nth_append)
  show ?thesis
  proof (cases r)
    case (Inl e)
    with False a k show ?thesis
      by (simp add: get_combined_signal_with_noise_def zeros_like_def alloc_def c_def w1_def)
  next
    case (Inr u)
    with False a k show ?thesis
      by (auto simp: get_combined_signal_with_noise_def zeros_like_def alloc_def c_def w1_def
          Let_def random_normal_def store_kept_def heap_kept_def nth_append)
  qed
qed

lemma take_samples_kept: "store_kept w (snd (take_samples tm amp f w))"
  by (auto simp: take_samples_def Let_def alloc_def store_kept_def heap_kept_def nth_append
      split: sum.splits)

lemma reconstruct_kept: "store_kept w (snd (reconstruct s sa w))"
  by (auto simp: reconstruct_def Let_def alloc_def store_kept_def heap_kept_def nth_append
      split: sum.splits prod.splits)

lemma start_kept: "store_kept w (snd (start amp tm w))"
proof -
  define w1 where "w1 = w\<lparr>gui_time := tm, gui_amplitude := amp\<rparr>"
  have k1: "store_kept w w1" by (simp add: w1_def store_kept_def heap_kept_def)
  obtain r w2 where t: "take_samples tm amp (sampling_frequency w) w1 = (r, w2)"
    by (cases "take_samples tm amp (sampling_frequency w) w1")
  have k2: "store_kept w1 w2" using take_samples_kept [of w1 tm amp "sampling_frequency w"] t by simp
  have k: "store_kept w w2" using k1 k2 by (rule store_kept_trans)
  have "store_kept w2 (snd (start amp tm w))"
    using t by (auto simp: start_def w1_def store_kept_refl reconstruct_kept
        split: sum.splits option.splits)
  with k show ?thesis by (rule store_kept_trans)
qed

lemma plot_signals_kept: "store_kept w (snd (plot_signals w))"
proof -
  obtain r w1 where g: "get_combined_signal_with_noise w = (r, w1)"
    by (cases "get_combined_signal_with_noise w")
  have k: "store_kept w w1" using get_combined_kept [of w] g by simp
  have "store_kept w (snd (plot_signals w)) \<or> store_kept w1 (snd (plot_signals w))"
    using g by (auto simp: plot_signals_def store_kept_message store_kept_refl start_kept
        split: sum.splits option.splits prod.splits)
  with k show ?thesis by (auto intro: store_kept_trans)
qed

lemma store_kept_arrays:
  assumes "store_kept w w'" "valid_refs w" "s \<in> set (signals (manager w))"
  shows "signal_arrays w' s = signal_arrays w s"
  using assms by (auto simp: store_kept_def heap_kept_def valid_refs_def signal_arrays_def)

lemma asc_valid:
  assumes "pf ftxt = Some f" "pf atxt = Some a"
    and "tmw = (if signals (manager w) \<noteq> [] then (time (hd (signals (manager w))), w)
                else alloc Float64 (linspace 0 1 1000) w)"
    and "sg = \<lparr>amplitude = length (heap (snd tmw)), time = fst tmw, frequency = Some f,
               signal_id = next_signal_id (manager w), signal_type = ''sinusoidal''\<rparr>"
    and "w4 = (snd tmw)\<lparr>heap := heap (snd tmw) @
                 [map (\<lambda>t. a * sin (2 * pi * f * t)) (heap (snd tmw) ! fst tmw)],
               dtypes := (dtypes (snd tmw))(length (heap (snd tmw)) := Float64),
               manager := (manager w)\<lparr>signals := signals (manager w) @ [sg],
                 next_signal_id := next_signal_id (manager w) + 1\<rparr>\<rparr>"
  shows "store_kept w4 (snd (add_signal_component pf ftxt atxt w))"
proof -
  obtain r w5 where p: "plot_signals w4 = (r, w5)" by (cases "plot_signals w4")
  have k: "store_kept w4 w5" using plot_signals_kept [of w4] p by simp
  have m: "store_kept w4 (message (Warning ''Invalid Input'') w5)"
    using k store_kept_message by (rule store_kept_trans)
  have e: "snd (add_signal_component pf ftxt atxt w) = w5 \<or>
           snd (add_signal_component pf ftxt atxt w) = message (Warning ''Invalid Input'') w5"
  proof (cases "signals (manager w) = []")
    case True
    with assms p show ?thesis
      by (simp add: add_signal_component_def alloc_def Let_def split: sum.splits exn.splits)
  next
    case False
    with assms p show ?thesis
      by (simp add: add_signal_component_def alloc_def Let_def split: sum.splits exn.splits)
  qed
  with k m show ?thesis by auto
qed

lemma upload_file_valid:
  assumes "rc p = Inr data" "2 \<le> length data"
    and "sg = \<lparr>amplitude = length (heap w) + 1, time = length (heap w), frequency = None,
               signal_id = next_signal_id (manager w), signal_type = ''UPLOADED''\<rparr>"
    and "w4 = w\<lparr>heap := heap w @ [col_values (data ! 0), col_values (data ! 1)],
               dtypes := (dtypes w)(length (heap w) := col_dtype (data ! 0),
                 Suc (length (heap w)) := col_dtype (data ! 1)),
               manager := (manager w)\<lparr>signals := signals (manager w) @ [sg],
                 next_signal_id := next_signal_id (manager w) + 1\<rparr>\<rparr>"
  shows "store_kept w4 (upload_file rc p w)"
proof -
  obtain r w5 where p: "plot_signals w4 = (r, w5)" by (cases "plot_signals w4")
  have k: "store_kept w4 w5" using plot_signals_kept [of w4] p by simp
  have m: "store_kept w4 (message (Critical ''Error'') w5)"
    using k store_kept_message by (rule store_kept_trans)
  have "upload_file rc p w = w5 \<or> upload_file rc p w = message (Critical ''Error'') w5"
    using assms p by (simp add: upload_file_def alloc_def Let_def split: sum.splits)
  with k m show ?thesis by auto
qed

subsection \<open>The invariant of the store\<close>

lemma append_only_refl: "append_only w w"
  by (simp add: append_only_def)

lemma append_only_trans:
  assumes "append_only w w1" "append_only w1 w2"
  shows "append_only w w2"
proof -
  from assms obtain zs where z: "signals (manager w1) = signals (manager w) @ zs"
    by (auto simp: append_only_def prefix_def)
  from assms(2) z have "map (signal_arrays w2) (signals (manager w)) =
      map (signal_arrays w1) (signals (manager w))"
    by (simp add: append_only_def)
  with assms show ?thesis
    by (auto simp: append_only_def intro: prefix_order.trans)
qed

lemma store_kept_inv:
  assumes "store_kept w w'" "store_inv w"
  shows "store_inv w' \<and> append_only w w'"
proof -
  from assms have m: "manager w' = manager w" and l: "length (heap w) \<le> length (heap w')"
    by (simp_all add: store_kept_def heap_kept_def)
  from assms(2) have v: "valid_refs w" by (simp add: store_inv_def)
  have "valid_refs w'" using v m l by (fastforce simp: valid_refs_def)
  moreover have "map (signal_arrays w') (signals (manager w)) = map (signal_arrays w) (signals (manager w))"
    using store_kept_arrays [OF assms(1) v] by simp
  ultimately show ?thesis using assms(2) m by (simp add: store_inv_def append_only_def)
qed

lemma append_step:
  assumes "store_inv w" "heap_kept w w4"
    and "manager w4 = (manager w)\<lparr>signals := signals (manager w) @ [sg],
           next_signal_id := next_signal_id (manager w) + 1\<rparr>"
    and "signal_id sg = next_signal_id (manager w)"
    and "time sg < length (heap w4)" "amplitude sg < length (heap w4)"
  shows "store_inv w4 \<and> append_only w w4"
proof -
  from assms(1) have v: "valid_refs w" and n: "1 \<le> next_signal_id (manager w)"
    and i: "map signal_id (signals (manager w)) = [1..next_signal_id (manager w) - 1]"
    by (simp_all add: store_inv_def)
  have "valid_refs w4"
    using v assms(2,3,5,6) by (fastforce simp: valid_refs_def heap_kept_def)
  moreover have "map signal_id (signals (manager w4)) = [1..next_signal_id (manager w4) - 1]"
    using i n assms(3,4) upto_rec2 [of 1 "next_signal_id (manager w)"] by simp
  moreover have "map (signal_arrays w4) (signals (manager w)) = map (signal_arrays w) (signals (manager w))"
    using v assms(2) by (auto simp: valid_refs_def heap_kept_def signal_arrays_def)
  ultimately show ?thesis
    using n assms(3) by (simp add: store_inv_def append_only_def)
qed

lemma add_signal_component_inv:
  assumes "store_inv w"
  shows "store_inv (snd (add_signal_component pf ftxt atxt w)) \<and>
         append_only w (snd (add_signal_component pf ftxt atxt w))"
proof (cases "pf ftxt = None \<or> pf atxt = None")
  case True
  then have "snd (add_signal_component pf ftxt atxt w) = message (Warning ''Invalid Input'') w"
    by (auto simp: add_signal_component_def split: option.splits)
  with store_kept_inv [OF store_kept_message assms] show ?thesis by simp
next
  case False
  then obtain f a where fa: "pf ftxt = Some f" "pf atxt = Some a" by auto
  define tmw where "tmw = (if signals (manager w) \<noteq> [] then (time (hd (signals (manager w))), w)
                else alloc Float64 (linspace 0 1 1000) w)"
  define sg where "sg = \<lparr>amplitude = length (heap (snd tmw)), time = fst tmw, frequency = Some f,
               signal_id = next_signal_id (manager w), signal_type = ''sinusoidal''\<rparr>"
  define w4 where "w4 = (snd tmw)\<lparr>heap := heap (snd tmw) @
                 [map (\<lambda>t. a * sin (2 * pi * f * t)) (heap (snd tmw) ! fst tmw)],
               dtypes := (dtypes (snd tmw))(length (heap (snd tmw)) := Float64),
               manager := (manager w)\<lparr>signals := signals (manager w) @ [sg],
                 next_signal_id := next_signal_id (manager w) + 1\<rparr>\<rparr>"
  have k: "store_kept w4 (snd (add_signal_component pf ftxt atxt w))"
    by (rule asc_valid [OF fa tmw_def sg_def w4_def])
  from assms have v: "valid_refs w" by (simp add: store_inv_def)
  have tv: "fst tmw < length (heap (snd tmw))"
    using v by (auto simp: tmw_def alloc_def valid_refs_def)
  have hk: "heap_kept w w4"
    by (auto simp: heap_kept_def w4_def tmw_def alloc_def nth_append)
  have "store_inv w4 \<and> append_only w w4"
    using assms hk
  proof (rule append_step)
    show "manager w4 = (manager w)\<lparr>signals := signals (manager w) @ [sg],
           next_signal_id := next_signal_id (manager w) + 1\<rparr>" by (simp add: w4_def)
    show "signal_id sg = next_signal_id (manager w)" by (simp add: sg_def)
    show "time sg < length (heap w4)" using tv by (simp add: sg_def w4_def)
    show "amplitude sg < length (heap w4)" by (simp add: sg_def w4_def)
  qed
  with store_kept_inv [OF k] show ?thesis by (blast intro: append_only_trans)
qed

lemma upload_file_inv:
  assumes "store_inv w"
  shows "store_inv (upload_file rc p w) \<and> append_only w (upload_file rc p w)"
proof (cases "rc p")
  case (Inl e)
  then have "upload_file rc p w = message (Critical ''Error'') w"
    by (simp add: upload_file_def)
  with store_kept_inv [OF store_kept_message assms] show ?thesis by simp
next
  case (Inr data)
  show ?thesis
  proof (cases "length data < 2")
    case True
    with Inr have "upload_file rc p w = message (Warning ''Invalid Data'') w"
      by (simp add: upload_file_def)
    with store_kept_inv [OF store_kept_message assms] show ?thesis by simp
  next
    case False
    then have d: "2 \<le> length data" by simp
    define sg where "sg = \<lparr>amplitude = length (heap w) + 1, time = length (heap w), frequency = None,
               signal_id = next_signal_id (manager w), signal_type = ''UPLOADED''\<rparr>"
    define w4 where "w4 = w\<lparr>heap := heap w @ [col_values (data ! 0), col_values (data ! 1)],
               dtypes := (dtypes w)(length (heap w) := col_dtype (data ! 0),
                 Suc (length (heap w)) := col_dtype (data ! 1)),
               manager := (manager w)\<lparr>signals := signals (manager w) @ [sg],
                 next_signal_id := next_signal_id (manager w) + 1\<rparr>\<rparr>"
    have k: "store_kept w4 (upload_file rc p w)"
      using Inr d sg_def w4_def by (rule upload_file_valid)
    have hk: "heap_kept w w4"
      by (auto simp: heap_kept_def w4_def nth_append)
    have "store_inv w4 \<and> append_only w w4"
      using assms hk
    proof (rule append_step)
      show "manager w4 = (manager w)\<lparr>signals := signals (manager w) @ [sg],
           next_signal_id := next_signal_id (manager w) + 1\<rparr>" by (simp add: w4_def)
      show "signal_id sg = next_signal_id (manager w)" by (simp add: sg_def)
      show "time sg < length (heap w4)" by (simp add: sg_def w4_def)
      show "amplitude sg < length (heap w4)" by (simp add: sg_def w4_def)
    qed
    with store_kept_inv [OF k] show ?thesis by (blast intro: append_only_trans)
  qed
qed

lemma upload_files_inv:
  "store_inv w \<Longrightarrow> store_inv (upload_files rc ps w) \<and> append_only w (upload_files rc ps w)"
proof (induction ps arbitrary: w)
  case Nil
  then show ?case by (simp add: append_only_refl)
next
  case (Cons p ps)
  from upload_file_inv [OF Cons.prems, of rc p]
  have 1: "store_inv (upload_file rc p w)" and 2: "append_only w (upload_file rc p w)" by simp_all
  from Cons.IH [OF 1] 2 show ?case by (auto intro: append_only_trans)
qed

lemma store_inv_ids:
  assumes "store_inv w"
  shows "distinct (map signal_id (signals (manager w))) \<and>
         sorted_wrt (<) (map signal_id (signals (manager w))) \<and>
         (\<forall>s\<in>set (signals (manager w)). 1 \<le> signal_id s \<and> signal_id s < next_signal_id (manager w)) \<and>
         (\<forall>k<length (signals (manager w)). signal_id (signals (manager w) ! k) = int k + 1)"
proof -
  from assms have i: "map signal_id (signals (manager w)) = [1..next_signal_id (manager w) - 1]"
    by (simp add: store_inv_def)
  have a: "distinct (map signal_id (signals (manager w)))" by (simp add: i)
  have b: "sorted_wrt (<) (map signal_id (signals (manager w)))"
    by (simp add: i sorted_wrt_upto)
  have c: "\<forall>s\<in>set (signals (manager w)). 1 \<le> signal_id s \<and> signal_id s < next_signal_id (manager w)"
  proof
    fix s assume "s \<in> set (signals (manager w))"
    then have "signal_id s \<in> set (map signal_id (signals (manager w)))" by simp
    then show "1 \<le> signal_id s \<and> signal_id s < next_signal_id (manager w)" by (simp add: i)
  qed
  have d: "\<forall>k<length (signals (manager w)). signal_id (signals (manager w) ! k) = int k + 1"
  proof (intro allI impI)
    fix k assume k: "k < length (signals (manager w))"
    then have "signal_id (signals (manager w) ! k) = map signal_id (signals (manager w)) ! k" by simp
    also have "\<dots> = [1..next_signal_id (manager w) - 1] ! k" by (simp add: i)
    also have "\<dots> = 1 + int k"
    proof (rule nth_upto)
      from k have "k < length (map signal_id (signals (manager w)))" by simp
      then have "k < length [1..next_signal_id (manager w) - 1]" by (simp only: i)
      then show "1 + int k \<le> next_signal_id (manager w) - 1" by simp
    qed
    finally show "signal_id (signals (manager w) ! k) = int k + 1" by simp
  qed
  from a b c d show ?thesis by blast
qed

subsection \<open>Double rounding\<close>

lemma rint_of_int: "rint (of_int z) = z"
  by (simp add: rint_def)

lemma fl64_exact:
  assumes "x * 2 ^ n = of_int m" "\<bar>m\<bar> < 2 ^ 53"
  shows "fl64 x = x"
proof (cases "x = 0")
  case True
  then show ?thesis by (simp add: fl64_def)
next
  case False
  define e where "e = \<lfloor>log 2 \<bar>x\<bar>\<rfloor>"
  define u :: real where "u = 2 powr (of_int e - 52)"
  have xp: "0 < \<bar>x\<bar>" using False by simp
  have "of_int e \<le> log 2 \<bar>x\<bar>" by (simp add: e_def)
  then have "2 powr of_int e \<le> 2 powr log 2 \<bar>x\<bar>" by simp
  then have lo: "2 powr of_int e \<le> \<bar>x\<bar>" using xp by simp
  have "\<bar>x * 2 ^ n\<bar> = \<bar>real_of_int m\<bar>" by (simp only: assms(1))
  then have ax: "\<bar>x\<bar> * 2 ^ n = of_int \<bar>m\<bar>"
    by (simp add: abs_mult)
  have "of_int \<bar>m\<bar> < (2::real) ^ 53" using assms(2) by (simp only: of_int_less_iff [symmetric, where ?'a = real]) simp
  then have "\<bar>x\<bar> * 2 ^ n < 2 ^ 53" using ax by simp
  moreover have "2 powr of_int e * 2 ^ n \<le> \<bar>x\<bar> * 2 ^ n"
    using lo by (rule mult_right_mono) simp
  ultimately have "2 powr of_int e * 2 ^ n < (2::real) ^ 53" by linarith
  then have h: "2 powr (of_int e + real n) < (2::real) powr 53"
    by (simp add: powr_add powr_realpow)
  have "(1::real) < 2" by simp
  from powr_less_cancel_iff [OF this] h have "of_int e + real n < (53::real)" by blast
  then have "e + int n < 53" by linarith
  then have k0: "0 \<le> 52 - e - int n" by simp
  define k where "k = nat (52 - e - int n)"
  have ke: "real k + real n = 52 - of_int e" using k0 by (simp add: k_def)
  have "x / u = x * 2 powr (52 - of_int e)"
    by (simp add: u_def powr_diff field_simps)
  also have "\<dots> = x * 2 powr (real k + real n)" by (simp add: ke)
  also have "\<dots> = x * 2 ^ n * 2 ^ k" by (simp add: powr_add powr_realpow)
  also have "\<dots> = of_int (m * 2 ^ k)" by (simp add: assms(1))
  finally have xu: "x / u = of_int (m * 2 ^ k)" .
  have up: "u \<noteq> 0" by (simp add: u_def)
  have "fl64 x = u * of_int (rint (x / u))"
    using False by (simp add: fl64_def Let_def e_def u_def)
  also have "\<dots> = u * (x / u)" unfolding xu rint_of_int ..
  also have "\<dots> = x" using up by simp
  finally show ?thesis .
qed

lemma fl64_values:
  "fl64 1 = 1" "fl64 (1 / 2) = 1 / 2" "fl64 (3 / 4) = 3 / 4" "fl64 (3 / 2) = 3 / 2"
  using fl64_exact [of 1 0 1] fl64_exact [of "1 / 2" 1 1] fl64_exact [of "3 / 4" 2 3]
    fl64_exact [of "3 / 2" 1 3]
  by simp_all

lemma fl64_more:
  "fl64 (1 / 4) = 1 / 4" "fl64 3 = 3"
  using fl64_exact [of "1 / 4" 2 1] fl64_exact [of 3 0 3]
  by simp_all

lemma fl64_between:
  assumes "2 powr of_int e \<le> \<bar>x\<bar>" "\<bar>x\<bar> < 2 powr (of_int e + 1)"
  shows "fl64 x = 2 powr (of_int e - 52) * of_int (rint (x / 2 powr (of_int e - 52)))"
proof -
  have "(0::real) < 2 powr of_int e" by simp
  with assms(1) have p: "0 < \<bar>x\<bar>" by linarith
  have "\<lfloor>log 2 \<bar>x\<bar>\<rfloor> = e"
    using assms p by (simp add: floor_log_eq_powr_iff)
  moreover have "x \<noteq> 0" using p by simp
  ultimately show ?thesis by (simp add: fl64_def Let_def)
qed

text \<open>Two roundings that matter below: the step \<open>1 / 49\<close> is rounded down, and the
  quotient of 1 by that step is rounded up, past 49.\<close>

lemma fl64_49: "fl64 (1 / 49) = 5882252574524729 / 288230376151711744"
proof -
  have "fl64 (1 / 49) = 2 powr (of_int (- 6) - 52) * of_int (rint (1 / 49 / 2 powr (of_int (- 6) - 52)))"
    by (rule fl64_between) (simp_all add: powr_neg_numeral)
  also have "2 powr (of_int (- 6) - 52) = 1 / (2::real) ^ 58" by (simp add: powr_neg_numeral)
  also have "rint (1 / 49 / (1 / (2::real) ^ 58)) = 5882252574524729"
    by (simp add: rint_def Let_def)
  finally show ?thesis by simp
qed

lemma fl64_quotient_49:
  "fl64 (288230376151711744 / 5882252574524729) = 6896136929411073 / 140737488355328"
proof -
  have "fl64 (288230376151711744 / 5882252574524729) =
      2 powr (of_int 5 - 52) *
      of_int (rint (288230376151711744 / 5882252574524729 / 2 powr (of_int 5 - 52)))"
    by (rule fl64_between) (simp_all add: powr_neg_numeral)
  also have "2 powr (of_int 5 - 52) = 1 / (2::real) ^ 47" by (simp add: powr_neg_numeral)
  also have "rint (288230376151711744 / 5882252574524729 / (1 / (2::real) ^ 47)) = 6896136929411073"
    by (simp add: rint_def Let_def)
  finally show ?thesis by simp
qed

lemma fl64_step_49:
  "fl64 (5882252574524729 / 288230376151711744) = 5882252574524729 / 288230376151711744"
  using fl64_exact [of "5882252574524729 / 288230376151711744" 58 5882252574524729] by simp

lemma fl64_5: "fl64 5 = 5"
  using fl64_exact [of 5 0 5] by simp

lemma fl64_quotient_5_49:
  "fl64 (1441151880758558720 / 5882252574524729) = 8620171161763841 / 35184372088832"
proof -
  have "fl64 (1441151880758558720 / 5882252574524729) =
      2 powr (of_int 7 - 52) *
      of_int (rint (1441151880758558720 / 5882252574524729 / 2 powr (of_int 7 - 52)))"
    by (rule fl64_between) (simp_all add: powr_neg_numeral)
  also have "2 powr (of_int 7 - 52) = 1 / (2::real) ^ 45" by (simp add: powr_neg_numeral)
  also have "rint (1441151880758558720 / 5882252574524729 / (1 / (2::real) ^ 45)) = 8620171161763841"
    by (simp add: rint_def Let_def)
  finally show ?thesis by simp
qed

lemma fl64_last_5_49: "fl64 (1441151880758558605 / 288230376151711744) = 5"
proof -
  have "fl64 (1441151880758558605 / 288230376151711744) =
      2 powr (of_int 2 - 52) *
      of_int (rint (1441151880758558605 / 288230376151711744 / 2 powr (of_int 2 - 52)))"
    by (rule fl64_between) (simp_all add: powr_neg_numeral)
  also have "2 powr (of_int 2 - 52) = 1 / (2::real) ^ 50" by (simp add: powr_neg_numeral)
  also have "rint (1441151880758558605 / 288230376151711744 / (1 / (2::real) ^ 50)) = 5629499534213120"
    by (simp add: rint_def Let_def)
  finally show ?thesis by simp
qed

subsection \<open>Library facts\<close>

lemma linspace_default: "linspace 0 1 1000 = map (\<lambda>i. real i / 999) [0..<1000]"
  by (simp add: linspace_def)

lemma add_signals_sum:
  assumes "c < length (heap w)" "dtypes w c = Float64"
    and "\<forall>s\<in>set ss. amplitude s \<noteq> c \<and> length (heap w ! amplitude s) = length (heap w ! c)"
  shows "\<exists>w'. add_signals c ss w = (Inr (), w') \<and>
           heap w' ! c =
             map (\<lambda>i. heap w ! c ! i + (\<Sum>s\<leftarrow>ss. heap w ! amplitude s ! i)) [0..<length (heap w ! c)]"
  using assms
proof (induction ss arbitrary: w)
  case Nil
  then show ?case by (simp add: map_nth)
next
  case (Cons s ss)
  define w1 where "w1 = w\<lparr>heap := (heap w)[c := map2 (+) (heap w ! c) (heap w ! amplitude s)]\<rparr>"
  from Cons.prems(3) have eq: "length (heap w ! amplitude s) = length (heap w ! c)"
    and ne: "amplitude s \<noteq> c" by simp_all
  have i: "iadd c (amplitude s) w = (Inr (), w1)"
    using eq Cons.prems(2) by (simp add: iadd_def w1_def)
  have c1: "c < length (heap w1)" using Cons.prems(1) by (simp add: w1_def)
  have hc: "heap w1 ! c = map2 (+) (heap w ! c) (heap w ! amplitude s)"
    using Cons.prems(1) by (simp add: w1_def)
  have ho: "\<And>a. a \<noteq> c \<Longrightarrow> heap w1 ! a = heap w ! a" by (simp add: w1_def)
  have len: "length (heap w1 ! c) = length (heap w ! c)" using hc eq by simp
  have d1: "dtypes w1 c = Float64" using Cons.prems(2) by (simp add: w1_def)
  have p: "\<forall>s'\<in>set ss. amplitude s' \<noteq> c \<and> length (heap w1 ! amplitude s') = length (heap w1 ! c)"
    using Cons.prems(3) ho len by simp
  from Cons.IH [OF c1 d1 p] obtain w' where r: "add_signals c ss w1 = (Inr (), w')"
    and h: "heap w' ! c =
      map (\<lambda>i. heap w1 ! c ! i + (\<Sum>s'\<leftarrow>ss. heap w1 ! amplitude s' ! i)) [0..<length (heap w1 ! c)]"
    by blast
  have s: "(\<Sum>s'\<leftarrow>ss. heap w1 ! amplitude s' ! i) = (\<Sum>s'\<leftarrow>ss. heap w ! amplitude s' ! i)" for i
  proof -
    have m: "map (\<lambda>s'. heap w1 ! amplitude s' ! i) ss = map (\<lambda>s'. heap w ! amplitude s' ! i) ss"
      using Cons.prems(3) ho by (intro map_cong) simp_all
    show ?thesis unfolding m ..
  qed
  have "heap w' ! c =
      map (\<lambda>i. heap w ! c ! i + (\<Sum>s'\<leftarrow>s # ss. heap w ! amplitude s' ! i)) [0..<length (heap w ! c)]"
    unfolding h len s using eq by (intro map_cong) (simp_all add: hc)
  with i r show ?case by simp
qed

lemma arange_length: "length (arange a b step) = nat \<lceil>fl64 (fl64 (b - a) / step)\<rceil>"
  by (simp add: arange_def Let_def)

lemma arange_nth:
  "i < length (arange a b step) \<Longrightarrow>
     arange a b step ! i =
       (if i = 0 then a else if i = 1 then fl64 (a + step)
        else fl64 (a + fl64 (real i * fl64 (fl64 (a + step) - a))))"
  by (simp add: arange_def Let_def)

lemma arange_unrounded:
  assumes "0 < f" "a < b" "unrounded a b f"
  shows "length (arange a b (fl64 (1 / f))) = nat \<lceil>(b - a) * f\<rceil> \<and>
         0 < length (arange a b (fl64 (1 / f))) \<and>
         (\<forall>i<length (arange a b (fl64 (1 / f))).
            arange a b (fl64 (1 / f)) ! i = a + real i * (1 / f) \<and>
            arange a b (fl64 (1 / f)) ! i < b)"
proof -
  from assms(3) have s: "fl64 (1 / f) = 1 / f" and d: "fl64 (b - a) = b - a"
    and q: "fl64 ((b - a) / (1 / f)) = (b - a) / (1 / f)"
    and n1: "fl64 (a + 1 / f) = a + 1 / f"
    and r: "\<And>i. 2 \<le> i \<Longrightarrow> real i < (b - a) * f \<Longrightarrow>
          fl64 (real i * (1 / f)) = real i * (1 / f) \<and>
          fl64 (a + real i * (1 / f)) = a + real i * (1 / f)"
    by (simp_all add: unrounded_def)
  have e: "(b - a) / (1 / f) = (b - a) * f" by simp
  have q': "fl64 ((b - a) * f) = (b - a) * f" using q unfolding e .
  have l: "length (arange a b (fl64 (1 / f))) = nat \<lceil>(b - a) * f\<rceil>"
    unfolding arange_length s d e q' ..
  have "0 < (b - a) * f" using assms(1,2) by simp
  then have p: "0 < length (arange a b (fl64 (1 / f)))" unfolding l by simp
  have dl: "fl64 (fl64 (a + 1 / f) - a) = 1 / f"
    unfolding n1 using s by simp
  have v: "arange a b (fl64 (1 / f)) ! i = a + real i * (1 / f) \<and>
           arange a b (fl64 (1 / f)) ! i < b" if i: "i < length (arange a b (fl64 (1 / f)))" for i
  proof -
    from i have "int i < \<lceil>(b - a) * f\<rceil>" unfolding l by simp
    then have "real_of_int (int i) < (b - a) * f" by (simp only: less_ceiling_iff)
    then have lt: "real i < (b - a) * f" by simp
    then have "real i / f < b - a" using assms(1) by (simp add: pos_divide_less_eq)
    then have bd: "a + real i * (1 / f) < b" by simp
    have "arange a b (fl64 (1 / f)) ! i = a + real i * (1 / f)"
    proof (cases "i < 2")
      case True
      then have "i = 0 \<or> i = 1" by linarith
      then show ?thesis using arange_nth [OF i] by (auto simp: s n1 simp del: arange_length)
    next
      case False
      then have i2: "2 \<le> i" by simp
      from r [OF i2 lt] have "fl64 (a + fl64 (real i * (1 / f))) = a + real i * (1 / f)" by simp
      with False i2 show ?thesis
        using arange_nth [OF i] by (simp add: s n1 dl del: arange_length)
    qed
    with bd show ?thesis by simp
  qed
  from l p v show ?thesis by blast
qed

lemma unrounded_example: "unrounded 0 (3 / 4) 4"
proof -
  have "fl64 (real i * (1 / 4)) = real i * (1 / 4) \<and> fl64 (0 + real i * (1 / 4)) = 0 + real i * (1 / 4)"
    if "2 \<le> i" "real i < (3 / 4 - 0) * 4" for i
  proof -
    from that have "i = 2" by simp
    then show ?thesis by (simp add: fl64_values)
  qed
  then show ?thesis
    unfolding unrounded_def by (simp add: fl64_values fl64_more)
qed

text \<open>With rounding, \<open>np.arange\<close> can return one value more than
  \<open>ceil((stop - start) / step)\<close>, and its last value can be \<open>stop\<close>: on the default
  base \<open>[0, 1]\<close> at 49 Hz there are 50 instants, and on \<open>[0, 5]\<close> at 49 Hz the last of
  246 instants is 5.\<close>

lemma arange_rounds_up:
  "length (arange 0 1 (fl64 (1 / 49))) = 50 \<and> \<lceil>(1 - 0) * (49::real)\<rceil> = 49"
  by (simp add: arange_length fl64_49 fl64_values fl64_quotient_49)

lemma arange_reaches_stop:
  "length (arange 0 5 (fl64 (1 / 49))) = 246 \<and> arange 0 5 (fl64 (1 / 49)) ! 245 = 5"
proof -
  have l: "length (arange 0 5 (fl64 (1 / 49))) = 246"
    by (simp add: arange_length fl64_49 fl64_5 fl64_quotient_5_49)
  then have "245 < length (arange 0 5 (fl64 (1 / 49)))" by simp
  from arange_nth [OF this] have "arange 0 5 (fl64 (1 / 49)) ! 245 = 5"
    by (simp add: fl64_49 fl64_step_49 fl64_last_5_49 fl64_5 del: arange_length)
  with l show ?thesis by simp
qed

lemma take_samples_result:
  assumes "heap w ! tm \<noteq> []" "f \<noteq> 0"
  shows "samples (snd (take_samples tm amp f w)) = Some (length (heap w)) \<and>
         heap (snd (take_samples tm amp f w)) ! length (heap w) =
           arange (hd (heap w ! tm)) (last (heap w ! tm)) (fl64 (1 / f))"
  using assms
  by (auto simp: take_samples_def Let_def alloc_def nth_append split: sum.splits)

lemma take_samples_returns:
  assumes "heap w ! tm \<noteq> []" "f \<noteq> 0" "tm < length (heap w)" "amp < length (heap w)"
    "length (heap w ! amp) = length (heap w ! tm)"
  shows "fst (take_samples tm amp f w) = Inr ()"
  using assms
  by (auto simp: take_samples_def Let_def alloc_def nth_append interp_def split: sum.splits)

lemma resample_lengths:
  assumes "x \<noteq> []" "0 < num" "2 \<le> length t"
  shows "\<exists>y nt. resample x num t = Inr (y, nt) \<and> length y = num \<and> length nt = num"
  using assms by (simp add: resample_def Let_def irfft_def)

lemma resample_raises:
  assumes "x = [] \<or> length t < 2"
  shows "resample x 5000 t = Inl (if x = [] then ValueError else IndexError)"
  using assms by (auto simp: resample_def Let_def)

text \<open>Where the first signal's time base holds doubles, the combined signal is the
  pointwise sum of the amplitudes plus the scaled variates.\<close>

lemma get_combined_float_sum:
  assumes "signals (manager w) \<noteq> []" "valid_refs w"
    and "dtypes w (time (hd (signals (manager w)))) = Float64"
    and "\<forall>s\<in>set (signals (manager w)).
           length (heap w ! amplitude s) = length (heap w ! time (hd (signals (manager w))))"
  shows "\<exists>noisy w'.
           get_combined_signal_with_noise w =
             (Inr (Some (time (hd (signals (manager w)))), Some noisy), w') \<and>
           heap w' ! time (hd (signals (manager w))) = heap w ! time (hd (signals (manager w))) \<and>
           heap w' ! noisy =
             map (\<lambda>i. summed_amplitude w ! i +
                    sqrt (mean (map (\<lambda>x. x ^ 2) (summed_amplitude w)) / 10 powr (snr (manager w) / 10))
                      * rng w i)
               [0..<length (heap w ! time (hd (signals (manager w))))]"
proof -
  define tm where "tm = time (hd (signals (manager w)))"
  define n where "n = length (heap w ! tm)"
  define c where "c = length (heap w)"
  define w1 where "w1 = w\<lparr>heap := heap w @ [replicate (length (heap w ! tm)) 0],
    dtypes := (dtypes w)(c := dtypes w tm)\<rparr>"
  have d1: "dtypes w1 c = Float64" using assms(3) by (simp add: w1_def c_def tm_def)
  have tv: "tm < length (heap w)"
    using assms(1,2) by (simp add: valid_refs_def tm_def)
  have c1: "c < length (heap w1)" by (simp add: c_def w1_def)
  have hc1: "heap w1 ! c = replicate n 0" by (simp add: c_def w1_def n_def)
  have old: "\<And>a. a < c \<Longrightarrow> heap w1 ! a = heap w ! a" by (simp add: c_def w1_def nth_append)
  have av: "\<forall>s\<in>set (signals (manager w)). amplitude s < c"
    using assms(2) by (simp add: valid_refs_def c_def)
  have p: "\<forall>s\<in>set (signals (manager w1)).
             amplitude s \<noteq> c \<and> length (heap w1 ! amplitude s) = length (heap w1 ! c)"
    using av assms(4) old hc1 by (auto simp: w1_def tm_def n_def)
  from add_signals_sum [OF c1 d1 p] obtain w2
    where r: "add_signals c (signals (manager w1)) w1 = (Inr (), w2)"
      and h: "heap w2 ! c =
        map (\<lambda>i. heap w1 ! c ! i + (\<Sum>s\<leftarrow>signals (manager w1). heap w1 ! amplitude s ! i))
          [0..<length (heap w1 ! c)]"
    by blast
  note f = add_signals_frame [OF r]
  have s: "(\<Sum>s\<leftarrow>signals (manager w1). heap w1 ! amplitude s ! i) =
           (\<Sum>s\<leftarrow>signals (manager w). heap w ! amplitude s ! i)" for i
  proof -
    have q: "signals (manager w1) = signals (manager w)" by (simp add: w1_def)
    have m: "map (\<lambda>s. heap w1 ! amplitude s ! i) (signals (manager w)) =
          map (\<lambda>s. heap w ! amplitude s ! i) (signals (manager w))"
      using av old by (intro map_cong) simp_all
    show ?thesis unfolding q m ..
  qed
  have ca: "heap w2 ! c = summed_amplitude w"
    unfolding h s hc1 summed_amplitude_def tm_def [symmetric] n_def [symmetric]
    by (intro map_cong) simp_all
  have lca: "length (summed_amplitude w) = n"
    by (simp add: summed_amplitude_def tm_def n_def)
  have l2: "length (heap w2) = Suc c" using f by (simp add: w1_def c_def)
  have m2: "manager w2 = manager w" "rng w2 = rng w" using f by (simp_all add: w1_def)
  have t2: "heap w2 ! tm = heap w ! tm" using f tv old by (simp add: c_def)
  define np where "np = mean (map (\<lambda>x. x ^ 2) (summed_amplitude w)) / 10 powr (snr (manager w) / 10)"
  define noisy where "noisy = map2 (+) (summed_amplitude w) (map (\<lambda>x. sqrt np * x) (map (rng w) [0..<n]))"
  define w5 where "w5 = w2\<lparr>rng := (\<lambda>i. rng w (i + n)),
     heap := heap w2 @ [map (\<lambda>x. sqrt np * x) (map (rng w) [0..<n]), noisy],
     dtypes := (dtypes w2)(Suc c := Float64, Suc (Suc c) := Float64)\<rparr>"
  have q: "signals (manager w1) = signals (manager w)" by (simp add: w1_def)
  have r': "add_signals c (signals (manager w)) w1 = (Inr (), w2)" using r unfolding q .
  have g: "get_combined_signal_with_noise w = (Inr (Some tm, Some (Suc (Suc c))), w5)"
    using assms(1) r'
    by (simp add: get_combined_signal_with_noise_def zeros_like_def alloc_def Let_def
        random_normal_def tm_def [symmetric] c_def [symmetric] w1_def [symmetric] ca lca m2 l2 np_def [symmetric]
        w5_def noisy_def nth_append)
  have t5: "heap w5 ! tm = heap w ! tm"
    using t2 tv l2 by (simp add: w5_def nth_append c_def)
  have n5: "heap w5 ! Suc (Suc c) = noisy" using l2 by (simp add: w5_def nth_append)
  have "noisy = map (\<lambda>i. summed_amplitude w ! i + sqrt np * rng w i) [0..<n]"
    using lca by (intro nth_equalityI) (simp_all add: noisy_def)
  with g t5 n5 show ?thesis
    unfolding tm_def [symmetric] n_def [symmetric] np_def [symmetric] by blast
qed

subsection \<open>The claims\<close>

text \<open>
  C1 (as amended). For a time sequence with first value \<open>t0\<close> and last value \<open>tN\<close> and
  a sampling frequency \<open>f\<close> other than 0, \<open>take_samples\<close> stores the instants that
  \<open>np.arange\<close> computes in double arithmetic: their number is the ceiling of the double
  quotient of \<open>tN - t0\<close> by the double \<open>1 / f\<close>; the first is \<open>t0\<close>, the second the
  double \<open>t0 + 1 / f\<close>, the \<open>i\<close>-th the double \<open>t0 + i * delta\<close>. Where \<open>t0 < tN\<close>,
  \<open>f > 0\<close> and none of these operations rounds, the instants are \<open>t0 + i / f\<close>, every
  one strictly less than \<open>tN\<close>, and there are \<open>ceil((tN - t0) * f)\<close> of them, at least
  one. It returns normally when the amplitude sequence has the length of the time
  sequence. The claim's count, \<open>floor((tN - t0) * f)\<close>, is one too small whenever
  \<open>(tN - t0) * f\<close> is not an integer; and where the operations round, neither the
  ceiling nor "strictly less than \<open>tN\<close>" is guaranteed (\<open>arange_rounds_up\<close>,
  \<open>arange_reaches_stop\<close>).
\<close>

theorem take_samples_instants:
  assumes "heap w ! tm \<noteq> []" "f \<noteq> 0"
  shows "\<exists>s ss. samples (snd (take_samples tm amp f w)) = Some s \<and>
           heap (snd (take_samples tm amp f w)) ! s = ss \<and>
           length ss =
             nat \<lceil>fl64 (fl64 (last (heap w ! tm) - hd (heap w ! tm)) / fl64 (1 / f))\<rceil> \<and>
           (\<forall>i<length ss. ss ! i =
              (if i = 0 then hd (heap w ! tm)
               else if i = 1 then fl64 (hd (heap w ! tm) + fl64 (1 / f))
               else fl64 (hd (heap w ! tm) +
                      fl64 (real i * fl64 (fl64 (hd (heap w ! tm) + fl64 (1 / f)) - hd (heap w ! tm)))))) \<and>
           (hd (heap w ! tm) < last (heap w ! tm) \<and> 0 < f \<and>
            unrounded (hd (heap w ! tm)) (last (heap w ! tm)) f \<longrightarrow>
              length ss = nat \<lceil>(last (heap w ! tm) - hd (heap w ! tm)) * f\<rceil> \<and>
              0 < length ss \<and>
              (\<forall>i<length ss. ss ! i = hd (heap w ! tm) + real i * (1 / f) \<and>
                 ss ! i < last (heap w ! tm))) \<and>
           (tm < length (heap w) \<and> amp < length (heap w) \<and>
              length (heap w ! amp) = length (heap w ! tm) \<longrightarrow>
            fst (take_samples tm amp f w) = Inr ())"
proof -
  define t0 where "t0 = hd (heap w ! tm)"
  define tN where "tN = last (heap w ! tm)"
  define ss where "ss = arange t0 tN (fl64 (1 / f))"
  have r: "samples (snd (take_samples tm amp f w)) = Some (length (heap w))"
      "heap (snd (take_samples tm amp f w)) ! length (heap w) = ss"
    using take_samples_result [OF assms, of amp] by (simp_all add: ss_def t0_def tN_def)
  have e: "tm < length (heap w) \<and> amp < length (heap w) \<and>
             length (heap w ! amp) = length (heap w ! tm) \<longrightarrow>
           fst (take_samples tm amp f w) = Inr ()"
    using take_samples_returns [OF assms] by blast
  have l: "length ss = nat \<lceil>fl64 (fl64 (tN - t0) / fl64 (1 / f))\<rceil>"
    unfolding ss_def by (rule arange_length)
  have v: "\<forall>i<length ss. ss ! i =
              (if i = 0 then t0 else if i = 1 then fl64 (t0 + fl64 (1 / f))
               else fl64 (t0 + fl64 (real i * fl64 (fl64 (t0 + fl64 (1 / f)) - t0))))"
    unfolding ss_def using arange_nth by blast
  have u: "t0 < tN \<and> 0 < f \<and> unrounded t0 tN f \<longrightarrow>
              length ss = nat \<lceil>(tN - t0) * f\<rceil> \<and> 0 < length ss \<and>
              (\<forall>i<length ss. ss ! i = t0 + real i * (1 / f) \<and> ss ! i < tN)"
    unfolding ss_def using arange_unrounded [of f t0 tN] by blast
  from r l v u e show ?thesis unfolding t0_def tN_def by blast
qed

theorem take_samples_instants_witness:
  "heap sampling_world ! 0 \<noteq> [] \<and>
   hd (heap sampling_world ! 0) = 0 \<and> last (heap sampling_world ! 0) = 3 / 4 \<and>
   unrounded 0 (3 / 4) 4 \<and>
   fst (take_samples 0 1 4 sampling_world) = Inr () \<and>
   samples (snd (take_samples 0 1 4 sampling_world)) = Some 2 \<and>
   length (heap (snd (take_samples 0 1 4 sampling_world)) ! 2) = 3 \<and>
   heap (snd (take_samples 0 1 4 sampling_world)) ! 2 ! 2 = 1 / 2"
proof -
  have h: "heap sampling_world ! 0 \<noteq> []" "(4::real) \<noteq> 0"
    by (simp_all add: sampling_world_def)
  have t: "hd (heap sampling_world ! 0) = 0" "last (heap sampling_world ! 0) = 3 / 4"
    by (simp_all add: sampling_world_def)
  have g: "0 < length (heap sampling_world) \<and> 1 < length (heap sampling_world) \<and>
    length (heap sampling_world ! 1) = length (heap sampling_world ! 0)"
    by (simp add: sampling_world_def)
  have r: "samples (snd (take_samples 0 1 4 sampling_world)) = Some 2"
    using take_samples_result [of sampling_world 0 4 1] by (simp add: sampling_world_def)
  have c: "nat \<lceil>(3 / 4 - 0) * (4::real)\<rceil> = 3" by simp
  from take_samples_instants [OF h, of 1] obtain s ss where
    a: "samples (snd (take_samples 0 1 4 sampling_world)) = Some s"
    and b: "heap (snd (take_samples 0 1 4 sampling_world)) ! s = ss"
    and i: "hd (heap sampling_world ! 0) < last (heap sampling_world ! 0) \<and> 0 < (4::real) \<and>
            unrounded (hd (heap sampling_world ! 0)) (last (heap sampling_world ! 0)) 4 \<longrightarrow>
              length ss = nat \<lceil>(last (heap sampling_world ! 0) - hd (heap sampling_world ! 0)) * 4\<rceil> \<and>
              0 < length ss \<and>
              (\<forall>i<length ss. ss ! i = hd (heap sampling_world ! 0) + real i * (1 / 4) \<and>
                 ss ! i < last (heap sampling_world ! 0))"
    and e: "0 < length (heap sampling_world) \<and> 1 < length (heap sampling_world) \<and>
              length (heap sampling_world ! 1) = length (heap sampling_world ! 0) \<longrightarrow>
            fst (take_samples 0 1 4 sampling_world) = Inr ()"
    by blast
  from a r have "s = 2" by simp
  with b have s: "heap (snd (take_samples 0 1 4 sampling_world)) ! 2 = ss" by simp
  from i have l: "length ss = 3" and v: "\<forall>i<length ss. ss ! i = 0 + real i * (1 / 4)"
    unfolding t using unrounded_example c by simp_all
  from l have "(2::nat) < length ss" by simp
  with v have "ss ! 2 = 0 + real 2 * (1 / 4)" by blast
  then have "ss ! 2 = 1 / 2" by simp
  with h(1) t unrounded_example e g r s l show ?thesis by simp
qed

text \<open>Over \<open>[0, 3/4]\<close> at frequency 2 the instants are \<open>0\<close> and \<open>1/2\<close>, two samples,
  while \<open>floor(3/4 * 2) = 1\<close>. No operation rounds at this input.\<close>

theorem take_samples_count_counterexample:
  "hd (heap sampling_world ! 0) = 0 \<and> last (heap sampling_world ! 0) = 3/4 \<and>
   fst (take_samples 0 1 2 sampling_world) = Inr () \<and>
   samples (snd (take_samples 0 1 2 sampling_world)) = Some 2 \<and>
   heap (snd (take_samples 0 1 2 sampling_world)) ! 2 = [0, 1/2] \<and>
   length (heap (snd (take_samples 0 1 2 sampling_world)) ! 2) \<noteq>
     nat \<lfloor>(last (heap sampling_world ! 0) - hd (heap sampling_world ! 0)) * 2\<rfloor>"
  by (simp add: sampling_world_def take_samples_def alloc_def Let_def arange_def interp_def
      fl64_values numeral_2_eq_2)

text \<open>
  C2. The claim is that, for a non-empty collection with a shared time base,
  \<open>get_combined_signal_with_noise\<close> returns the time base and the pointwise sum of all
  amplitudes plus the noise term. The code breaks it when the first signal's time column
  holds integers: \<open>np.zeros_like(time)\<close> makes the accumulator an integer array, and every
  \<open>+=\<close> converts the sum to integers. After the upload of the time column 0, 1, 2 with
  the amplitude column 1.5, 2.5, 3.5 (and variates 0, so that the noise term is 0) the
  pointwise sum is 1.5, 2.5, 3.5 and the array returned holds 1, 2, 3.
\<close>

theorem get_combined_integer_time_base:
  "dtypes integer_time_world (time (hd (signals (manager integer_time_world)))) = Int64 \<and>
   summed_amplitude integer_time_world = [3/2, 5/2, 7/2] \<and>
   fst (get_combined_signal_with_noise integer_time_world) = Inr (Some 2, Some 6) \<and>
   heap (snd (get_combined_signal_with_noise integer_time_world)) ! 2 = [0, 1, 2] \<and>
   heap (snd (get_combined_signal_with_noise integer_time_world)) ! 6 = [1, 2, 3]"
  by (simp add: integer_time_world_def summed_amplitude_def get_combined_signal_with_noise_def
      zeros_like_def alloc_def iadd_def trunc_def Let_def random_normal_def mean_def
      numeral_3_eq_3)

text \<open>
  C3. When both texts are read as numbers \<open>f\<close> and \<open>a\<close>, \<open>add_signal_component\<close> appends one
  signal. Its time base is the first stored signal's (the same array) when there is one,
  and otherwise the default base of 1000 points \<open>i / 999\<close>, from 0 to 1 second; its
  amplitude is \<open>a * sin (2 * pi * f * t)\<close> at every point \<open>t\<close> of that base. This holds
  whatever the display refresh does afterwards.
\<close>

theorem add_signal_component_appends:
  assumes "py_float frequency_text = Some f" "py_float amplitude_text = Some a" "valid_refs w"
  shows "\<exists>s. signals (manager (snd (add_signal_component py_float frequency_text amplitude_text w))) =
               signals (manager w) @ [s] \<and>
             (case signals (manager w) of
                [] \<Rightarrow> fst (signal_arrays (snd (add_signal_component py_float frequency_text amplitude_text w)) s) =
                        map (\<lambda>i. real i / 999) [0..<1000]
              | s0 # _ \<Rightarrow> time s = time s0 \<and>
                  fst (signal_arrays (snd (add_signal_component py_float frequency_text amplitude_text w)) s) =
                    fst (signal_arrays w s0)) \<and>
             snd (signal_arrays (snd (add_signal_component py_float frequency_text amplitude_text w)) s) =
               map (\<lambda>t. a * sin (2 * pi * f * t))
                 (fst (signal_arrays (snd (add_signal_component py_float frequency_text amplitude_text w)) s))"
proof -
  define tmw where "tmw = (if signals (manager w) \<noteq> [] then (time (hd (signals (manager w))), w)
                else alloc Float64 (linspace 0 1 1000) w)"
  define sg where "sg = \<lparr>amplitude = length (heap (snd tmw)), time = fst tmw, frequency = Some f,
               signal_id = next_signal_id (manager w), signal_type = ''sinusoidal''\<rparr>"
  define w4 where "w4 = (snd tmw)\<lparr>heap := heap (snd tmw) @
                 [map (\<lambda>t. a * sin (2 * pi * f * t)) (heap (snd tmw) ! fst tmw)],
               dtypes := (dtypes (snd tmw))(length (heap (snd tmw)) := Float64),
               manager := (manager w)\<lparr>signals := signals (manager w) @ [sg],
                 next_signal_id := next_signal_id (manager w) + 1\<rparr>\<rparr>"
  define w' where "w' = snd (add_signal_component py_float frequency_text amplitude_text w)"
  have k: "store_kept w4 w'"
    unfolding w'_def by (rule asc_valid [OF assms(1,2) tmw_def sg_def w4_def])
  have sigs: "signals (manager w') = signals (manager w) @ [sg]"
    using k by (simp add: store_kept_def w4_def)
  have tv: "fst tmw < length (heap (snd tmw))"
    using assms(3) by (auto simp: tmw_def alloc_def valid_refs_def)
  have arrs: "signal_arrays w' sg =
      (heap (snd tmw) ! fst tmw, map (\<lambda>t. a * sin (2 * pi * f * t)) (heap (snd tmw) ! fst tmw))"
    using k tv by (simp add: store_kept_def heap_kept_def w4_def signal_arrays_def sg_def nth_append)
  have base: "(case signals (manager w) of
                [] \<Rightarrow> fst (signal_arrays w' sg) = map (\<lambda>i. real i / 999) [0..<1000]
              | s0 # _ \<Rightarrow> time sg = time s0 \<and> fst (signal_arrays w' sg) = fst (signal_arrays w s0))"
    using arrs
    by (auto simp: tmw_def alloc_def sg_def signal_arrays_def linspace_default simp del: upt_Suc
        split: list.splits)
  show ?thesis
    unfolding w'_def [symmetric] using sigs arrs base by (intro exI [of _ sg]) simp
qed

theorem add_signal_component_appends_witness:
  "float_of_digits ''2'' = Some 2 \<and> float_of_digits ''3'' = Some 3 \<and> valid_refs one_signal_world \<and>
   (\<exists>s. signals (manager (snd (add_signal_component float_of_digits ''2'' ''3'' one_signal_world))) =
          signals (manager one_signal_world) @ [s] \<and>
        time s = 2 \<and>
        signal_arrays (snd (add_signal_component float_of_digits ''2'' ''3'' one_signal_world)) s =
          ([0, 1/2, 1], map (\<lambda>t. 3 * sin (2 * pi * 2 * t)) [0, 1/2, 1]))"
proof -
  have h: "float_of_digits ''2'' = Some 2" "float_of_digits ''3'' = Some 3"
    "valid_refs one_signal_world"
    by (simp_all add: float_of_digits_def digit_value_def one_signal_world_def valid_refs_def)
  have t: "signals (manager one_signal_world) =
      [\<lparr>amplitude = 3, time = 2, frequency = None, signal_id = 1, signal_type = ''UPLOADED''\<rparr>]"
    by (simp add: one_signal_world_def)
  have u: "fst (signal_arrays one_signal_world
       \<lparr>amplitude = 3, time = 2, frequency = None, signal_id = 1, signal_type = ''UPLOADED''\<rparr>) =
     [0, 1/2, 1]"
    by (simp add: one_signal_world_def signal_arrays_def)
  from add_signal_component_appends [OF h] obtain s where c:
    "signals (manager (snd (add_signal_component float_of_digits ''2'' ''3'' one_signal_world))) =
          signals (manager one_signal_world) @ [s]"
    "(case signals (manager one_signal_world) of
        [] \<Rightarrow> fst (signal_arrays (snd (add_signal_component float_of_digits ''2'' ''3'' one_signal_world)) s) =
                map (\<lambda>i. real i / 999) [0..<1000]
      | s0 # _ \<Rightarrow> time s = time s0 \<and>
          fst (signal_arrays (snd (add_signal_component float_of_digits ''2'' ''3'' one_signal_world)) s) =
            fst (signal_arrays one_signal_world s0))"
    "snd (signal_arrays (snd (add_signal_component float_of_digits ''2'' ''3'' one_signal_world)) s) =
       map (\<lambda>t. 3 * sin (2 * pi * 2 * t))
         (fst (signal_arrays (snd (add_signal_component float_of_digits ''2'' ''3'' one_signal_world)) s))"
    by blast
  from c(2) have d: "time s = 2"
    "fst (signal_arrays (snd (add_signal_component float_of_digits ''2'' ''3'' one_signal_world)) s) =
       [0, 1/2, 1]"
    unfolding t using u by simp_all
  from c(1,3) d have "signals (manager (snd (add_signal_component float_of_digits ''2'' ''3'' one_signal_world))) =
          signals (manager one_signal_world) @ [s] \<and>
        time s = 2 \<and>
        signal_arrays (snd (add_signal_component float_of_digits ''2'' ''3'' one_signal_world)) s =
          ([0, 1/2, 1], map (\<lambda>t. 3 * sin (2 * pi * 2 * t)) [0, 1/2, 1])"
    by (simp add: prod_eq_iff)
  with h show ?thesis by blast
qed

text \<open>
  C4. When the signal collection is empty, \<open>get_combined_signal_with_noise\<close> returns
  \<open>(None, None)\<close> and does nothing else: no array is allocated or written, no random
  variate is drawn, and the whole state is the one before the call.
\<close>

theorem get_combined_empty:
  "signals (manager w) = [] \<Longrightarrow>
     get_combined_signal_with_noise w = (Inr (None, None), w)"
  by (simp add: get_combined_signal_with_noise_def)

theorem get_combined_empty_witness:
  "signals (manager (init_world (\<lambda>i. 0))) = [] \<and>
   get_combined_signal_with_noise (init_world (\<lambda>i. 0)) = (Inr (None, None), init_world (\<lambda>i. 0))"
proof -
  have e: "signals (manager (init_world (\<lambda>i. 0))) = []"
    by (simp add: init_world_def init_manager_def)
  show ?thesis using e get_combined_empty [OF e] by simp
qed

text \<open>
  C5 (as amended). Given at least two sample instants and at least one sampled amplitude,
  \<open>reconstruct\<close> returns normally and the reconstruction viewer shows a curve whose time
  and amplitude arrays have exactly 5000 points each. Given fewer, it raises (ValueError
  when there is no amplitude, IndexError otherwise) and the viewer stays cleared: nothing
  is displayed.
\<close>

theorem reconstruct_points:
  "(heap w ! sa \<noteq> [] \<and> 2 \<le> length (heap w ! s) \<longrightarrow>
      (\<exists>rt ra w'. reconstruct s sa w = (Inr (), w') \<and>
           reconstruction_viewer w' = Some (rt, ra) \<and>
           length (heap w' ! rt) = 5000 \<and> length (heap w' ! ra) = 5000)) \<and>
   (heap w ! sa = [] \<or> length (heap w ! s) < 2 \<longrightarrow>
      reconstruct s sa w =
        (Inl (if heap w ! sa = [] then ValueError else IndexError),
         w\<lparr>reconstruction_viewer := None\<rparr>))"
proof (intro conjI impI)
  assume a: "heap w ! sa \<noteq> [] \<and> 2 \<le> length (heap w ! s)"
  then have "\<exists>y nt. resample (heap w ! sa) 5000 (heap w ! s) = Inr (y, nt) \<and>
      length y = 5000 \<and> length nt = 5000"
    by (intro resample_lengths) simp_all
  then obtain y nt where r: "resample (heap w ! sa) 5000 (heap w ! s) = Inr (y, nt)"
    and l: "length y = 5000" "length nt = 5000" by auto
  show "\<exists>rt ra w'. reconstruct s sa w = (Inr (), w') \<and>
           reconstruction_viewer w' = Some (rt, ra) \<and>
           length (heap w' ! rt) = 5000 \<and> length (heap w' ! ra) = 5000"
    using r l by (simp add: reconstruct_def alloc_def Let_def nth_append)
next
  assume "heap w ! sa = [] \<or> length (heap w ! s) < 2"
  from resample_raises [OF this]
  show "reconstruct s sa w =
        (Inl (if heap w ! sa = [] then ValueError else IndexError),
         w\<lparr>reconstruction_viewer := None\<rparr>)"
    by (simp add: reconstruct_def)
qed

theorem reconstruct_points_witness:
  "heap sampling_world ! 1 \<noteq> [] \<and> 2 \<le> length (heap sampling_world ! 0) \<and>
   (\<exists>rt ra w'. reconstruct 0 1 sampling_world = (Inr (), w') \<and>
           reconstruction_viewer w' = Some (rt, ra) \<and>
           length (heap w' ! rt) = 5000 \<and> length (heap w' ! ra) = 5000) \<and>
   length (heap one_signal_world ! 0) < 2 \<and>
   fst (reconstruct 0 3 one_signal_world) = Inl IndexError \<and>
   reconstruction_viewer (snd (reconstruct 0 3 one_signal_world)) = None"
proof -
  have h: "heap sampling_world ! 1 \<noteq> [] \<and> 2 \<le> length (heap sampling_world ! 0)"
    by (simp add: sampling_world_def)
  have k: "heap one_signal_world ! 3 = [] \<or> length (heap one_signal_world ! 0) < 2"
    "heap one_signal_world ! 3 \<noteq> []" "length (heap one_signal_world ! 0) < 2"
    by (simp_all add: one_signal_world_def)
  from reconstruct_points [of sampling_world 1 0] h
  have 1: "\<exists>rt ra w'. reconstruct 0 1 sampling_world = (Inr (), w') \<and>
           reconstruction_viewer w' = Some (rt, ra) \<and>
           length (heap w' ! rt) = 5000 \<and> length (heap w' ! ra) = 5000" by blast
  from reconstruct_points [of one_signal_world 3 0] k
  have 2: "reconstruct 0 3 one_signal_world =
        (Inl IndexError, one_signal_world\<lparr>reconstruction_viewer := None\<rparr>)" by simp
  from h 1 2 k(3) show ?thesis by simp
qed

text \<open>Sampling the span \<open>[0, 3/4]\<close> at frequency 1 gives the single instant \<open>0\<close>;
  reconstructing from it raises, and nothing is displayed.\<close>

theorem reconstruct_one_sample_counterexample:
  "heap (snd (take_samples 0 1 1 sampling_world)) ! 2 = [0] \<and>
   heap (snd (take_samples 0 1 1 sampling_world)) ! 3 = [0] \<and>
   fst (reconstruct 2 3 (snd (take_samples 0 1 1 sampling_world))) = Inl IndexError \<and>
   reconstruction_viewer (snd (reconstruct 2 3 (snd (take_samples 0 1 1 sampling_world)))) = None"
  by (simp add: sampling_world_def take_samples_def alloc_def Let_def arange_def interp_def
      reconstruct_def resample_def fl64_values)

text \<open>
  C6. With sampling frequency 0, \<open>take_samples\<close> fails for every time and amplitude
  sequence and changes nothing: the division raises ZeroDivisionError, unless the time
  sequence is empty, where reading its first element has already raised IndexError.
\<close>

theorem take_samples_zero_frequency:
  "take_samples tm amp 0 w =
     (Inl (if heap w ! tm = [] then IndexError else ZeroDivisionError), w)"
  by (simp add: take_samples_def)

text \<open>
  C7. When the one selected file parses to a table of at least two columns with \<open>N\<close>
  rows, \<open>upload_signal\<close> appends exactly one signal, whose time and amplitude sequences
  are the first two columns and have length \<open>N\<close>; the number of stored signals grows by
  one.
\<close>

theorem upload_signal_appends:
  assumes "read_csv file_path = Inr data" "2 \<le> length data" "\<forall>c\<in>set data. length (col_values c) = N"
  shows "\<exists>s. signals (manager (upload_signal read_csv [file_path] w)) = signals (manager w) @ [s] \<and>
             signal_arrays (upload_signal read_csv [file_path] w) s =
               (col_values (data ! 0), col_values (data ! 1)) \<and>
             length (fst (signal_arrays (upload_signal read_csv [file_path] w) s)) = N \<and>
             length (snd (signal_arrays (upload_signal read_csv [file_path] w) s)) = N \<and>
             length (signals (manager (upload_signal read_csv [file_path] w))) =
               length (signals (manager w)) + 1"
proof -
  define sg where "sg = \<lparr>amplitude = length (heap w) + 1, time = length (heap w), frequency = None,
               signal_id = next_signal_id (manager w), signal_type = ''UPLOADED''\<rparr>"
  define w4 where "w4 = w\<lparr>heap := heap w @ [col_values (data ! 0), col_values (data ! 1)],
               dtypes := (dtypes w)(length (heap w) := col_dtype (data ! 0),
                 Suc (length (heap w)) := col_dtype (data ! 1)),
               manager := (manager w)\<lparr>signals := signals (manager w) @ [sg],
                 next_signal_id := next_signal_id (manager w) + 1\<rparr>\<rparr>"
  define w' where "w' = upload_signal read_csv [file_path] w"
  have "store_kept w4 (upload_file read_csv file_path w)"
    using assms(1,2) sg_def w4_def by (rule upload_file_valid)
  then have k: "store_kept w4 w'" by (simp add: w'_def upload_signal_def)
  have sigs: "signals (manager w') = signals (manager w) @ [sg]"
    using k by (simp add: store_kept_def w4_def)
  have arrs: "signal_arrays w' sg = (col_values (data ! 0), col_values (data ! 1))"
    using k by (simp add: store_kept_def heap_kept_def w4_def signal_arrays_def sg_def nth_append)
  have l: "0 < length data" "1 < length data" using assms(2) by linarith+
  have "data ! 0 \<in> set data" "data ! 1 \<in> set data"
    by (rule nth_mem [OF l(1)], rule nth_mem [OF l(2)])
  with assms(3) have "length (col_values (data ! 0)) = N" "length (col_values (data ! 1)) = N" by blast+
  with sigs arrs show ?thesis
    unfolding w'_def [symmetric] by (intro exI [of _ sg]) simp
qed

theorem upload_signal_appends_witness:
  "(\<exists>s. signals (manager (upload_signal
             (\<lambda>p. Inr [\<lparr>col_dtype = Int64, col_values = [0, 1, 2]\<rparr>,
                        \<lparr>col_dtype = Float64, col_values = [3/2, 5/2, 7/2]\<rparr>])
             [''a.csv''] (init_world (\<lambda>i. 0)))) = [s] \<and>
        signal_arrays (upload_signal
             (\<lambda>p. Inr [\<lparr>col_dtype = Int64, col_values = [0, 1, 2]\<rparr>,
                        \<lparr>col_dtype = Float64, col_values = [3/2, 5/2, 7/2]\<rparr>])
             [''a.csv''] (init_world (\<lambda>i. 0))) s = ([0, 1, 2], [3/2, 5/2, 7/2]))"
proof -
  define data :: dataframe where
    "data = [\<lparr>col_dtype = Int64, col_values = [0, 1, 2]\<rparr>,
             \<lparr>col_dtype = Float64, col_values = [3/2, 5/2, 7/2]\<rparr>]"
  have h: "(\<lambda>p. Inr data :: exn + dataframe) ''a.csv'' = Inr data"
    "2 \<le> length data" "\<forall>c\<in>set data. length (col_values c) = 3"
    by (simp_all add: data_def)
  from upload_signal_appends [where w = "init_world (\<lambda>i. 0)", OF h]
  show ?thesis unfolding data_def by (auto simp: init_world_def init_manager_def)
qed

text \<open>
  C8. When the frequency text or the amplitude text is not a number,
  \<open>add_signal_component\<close> shows the warning "Invalid Input" and returns; the signal
  manager (signal collection, next identifier, noise ratio) and every array are as before.
\<close>

theorem add_signal_component_invalid:
  assumes "py_float frequency_text = None \<or> py_float amplitude_text = None"
  shows "add_signal_component py_float frequency_text amplitude_text w =
           (Inr (), w\<lparr>dialogs := dialogs w @ [Warning ''Invalid Input'']\<rparr>) \<and>
         manager (snd (add_signal_component py_float frequency_text amplitude_text w)) = manager w \<and>
         heap (snd (add_signal_component py_float frequency_text amplitude_text w)) = heap w"
  using assms by (auto simp: add_signal_component_def message_def split: option.splits)

theorem add_signal_component_invalid_witness:
  "float_of_digits ''abc'' = None \<and>
   add_signal_component float_of_digits ''abc'' ''1'' one_signal_world =
     (Inr (), one_signal_world\<lparr>dialogs := [Warning ''Invalid Input'']\<rparr>) \<and>
   manager (snd (add_signal_component float_of_digits ''abc'' ''1'' one_signal_world)) =
     manager one_signal_world"
proof -
  have n: "float_of_digits ''abc'' = None" by (simp add: float_of_digits_def)
  then have "float_of_digits ''abc'' = None \<or> float_of_digits ''1'' = None" by simp
  from add_signal_component_invalid [OF this, of one_signal_world] n
  show ?thesis by (simp add: one_signal_world_def)
qed

text \<open>
  C9. The invariant \<open>store_inv\<close> holds in the initial state and is kept by loading files,
  adding a component, setting the noise ratio and getting the combined signal; each of
  them is append-only. Under the invariant the identifiers are distinct, strictly
  increasing in insertion order, the \<open>k\<close>-th being \<open>k + 1\<close> (so they start from 1), and all
  below the next identifier.
\<close>

theorem store_invariant:
  "store_inv (init_world g) \<and>
   (store_inv w \<longrightarrow>
      store_inv (upload_signal read_csv file_paths w) \<and>
      append_only w (upload_signal read_csv file_paths w) \<and>
      store_inv (snd (add_signal_component py_float frequency_text amplitude_text w)) \<and>
      append_only w (snd (add_signal_component py_float frequency_text amplitude_text w)) \<and>
      store_inv (set_snr snr_value w) \<and>
      append_only w (set_snr snr_value w) \<and>
      store_inv (snd (get_combined_signal_with_noise w)) \<and>
      append_only w (snd (get_combined_signal_with_noise w)) \<and>
      distinct (map signal_id (signals (manager w))) \<and>
      sorted_wrt (<) (map signal_id (signals (manager w))) \<and>
      (\<forall>s\<in>set (signals (manager w)). 1 \<le> signal_id s \<and> signal_id s < next_signal_id (manager w)) \<and>
      (\<forall>k<length (signals (manager w)). signal_id (signals (manager w) ! k) = int k + 1))"
proof (intro conjI impI)
  show "store_inv (init_world g)"
    by (simp add: store_inv_def valid_refs_def init_world_def init_manager_def)
next
  assume i: "store_inv w"
  have u: "store_inv (upload_signal read_csv file_paths w) \<and>
      append_only w (upload_signal read_csv file_paths w)"
    using upload_files_inv [OF i, of read_csv file_paths]
    by (simp add: upload_signal_def append_only_refl i)
  have sn: "store_inv (set_snr snr_value w) \<and> append_only w (set_snr snr_value w)"
    using i by (simp add: store_inv_def append_only_def set_snr_def valid_refs_def signal_arrays_def)
  note a = add_signal_component_inv [OF i, of py_float frequency_text amplitude_text]
  note g = store_kept_inv [OF get_combined_kept i]
  note d = store_inv_ids [OF i]
  show "store_inv (upload_signal read_csv file_paths w)" using u by simp
  show "append_only w (upload_signal read_csv file_paths w)" using u by simp
  show "store_inv (snd (add_signal_component py_float frequency_text amplitude_text w))" using a by simp
  show "append_only w (snd (add_signal_component py_float frequency_text amplitude_text w))" using a by simp
  show "store_inv (set_snr snr_value w)" using sn by simp
  show "append_only w (set_snr snr_value w)" using sn by simp
  show "store_inv (snd (get_combined_signal_with_noise w))" using g by simp
  show "append_only w (snd (get_combined_signal_with_noise w))" using g by simp
  show "distinct (map signal_id (signals (manager w)))" using d by simp
  show "sorted_wrt (<) (map signal_id (signals (manager w)))" using d by simp
  show "\<forall>s\<in>set (signals (manager w)). 1 \<le> signal_id s \<and> signal_id s < next_signal_id (manager w)"
    using d by simp
  show "\<forall>k<length (signals (manager w)). signal_id (signals (manager w) ! k) = int k + 1"
    using d by simp
qed

theorem store_invariant_witness:
  "store_inv (init_world (\<lambda>i. 0)) \<and>
   store_inv (upload_signal
      (\<lambda>p. Inr [\<lparr>col_dtype = Int64, col_values = [0, 1, 2]\<rparr>,
                 \<lparr>col_dtype = Float64, col_values = [3/2, 5/2, 7/2]\<rparr>])
      [''a.csv''] (init_world (\<lambda>i. 0))) \<and>
   store_inv (snd (add_signal_component float_of_digits ''2'' ''3'' (init_world (\<lambda>i. 0)))) \<and>
   store_inv (set_snr 10 (init_world (\<lambda>i. 0))) \<and>
   store_inv (snd (get_combined_signal_with_noise (init_world (\<lambda>i. 0))))"
  using store_invariant [where g = "\<lambda>i. 0" and w = "init_world (\<lambda>i. 0)"
      and read_csv = "\<lambda>p. Inr [\<lparr>col_dtype = Int64, col_values = [0, 1, 2]\<rparr>,
                 \<lparr>col_dtype = Float64, col_values = [3/2, 5/2, 7/2]\<rparr>]" and file_paths = "[''a.csv'']"
      and py_float = float_of_digits and frequency_text = "''2''" and amplitude_text = "''3''"
      and snr_value = 10]
  by blast

text \<open>
  C10. \<open>get_combined_signal_with_noise\<close> leaves the store as it was: the signal
  collection, the next identifier, the noise ratio, and the time and amplitude sequences
  of every stored signal. (It sums into an array of its own, made by \<open>zeros_like\<close>.)
\<close>

theorem get_combined_read_only:
  assumes "valid_refs w"
  shows "signals (manager (snd (get_combined_signal_with_noise w))) = signals (manager w) \<and>
         next_signal_id (manager (snd (get_combined_signal_with_noise w))) = next_signal_id (manager w) \<and>
         snr (manager (snd (get_combined_signal_with_noise w))) = snr (manager w) \<and>
         map (signal_arrays (snd (get_combined_signal_with_noise w))) (signals (manager w)) =
           map (signal_arrays w) (signals (manager w))"
proof -
  have k: "store_kept w (snd (get_combined_signal_with_noise w))" by (rule get_combined_kept)
  then have "manager (snd (get_combined_signal_with_noise w)) = manager w"
    by (simp add: store_kept_def)
  moreover have "map (signal_arrays (snd (get_combined_signal_with_noise w))) (signals (manager w)) =
           map (signal_arrays w) (signals (manager w))"
    using store_kept_arrays [OF k assms] by simp
  ultimately show ?thesis by simp
qed

theorem get_combined_read_only_witness:
  "valid_refs one_signal_world \<and>
   signals (manager (snd (get_combined_signal_with_noise one_signal_world))) =
     signals (manager one_signal_world) \<and>
   map (signal_arrays (snd (get_combined_signal_with_noise one_signal_world)))
     (signals (manager one_signal_world)) = [([0, 1/2, 1], [1, 2, 3])]"
proof -
  have v: "valid_refs one_signal_world"
    by (simp add: valid_refs_def one_signal_world_def)
  show ?thesis
    using v get_combined_read_only [OF v]
    by (simp add: one_signal_world_def signal_arrays_def)
qed

end
